theory Spec2Isabelle
  imports Main
begin

section \<open>Tokens\<close>

text \<open>
  Modelled from the spec: the enum \<open>TokenType\<close> is declared in the token module, which is
  not part of the sources at hand. The constructors are the categories of the data model of
  the specification, together with \<open>OPEN_PAREN\<close>, the category that
  \<open>disambiguateTokens.ts\<close> tests for an opening parenthesis or bracket.
\<close>

datatype TokenType =
    RESERVED_COMMAND
  | RESERVED_BINARY_COMMAND
  | RESERVED_DEPENDENT_CLAUSE
  | RESERVED_JOIN_CONDITION
  | RESERVED_LOGICAL_OPERATOR
  | RESERVED_KEYWORD
  | RESERVED_FUNCTION_NAME
  | RESERVED_DATA_TYPE
  | RESERVED_PARAMETERIZED_DATA_TYPE
  | RESERVED_CASE_START
  | RESERVED_CASE_END
  | IDENTIFIER
  | ARRAY_IDENTIFIER
  | ARRAY_KEYWORD
  | QUOTED_IDENTIFIER
  | STRING
  | VARIABLE
  | PLACEHOLDER
  | NUMBER
  | OPERATOR
  | PROPERTY_ACCESS_OPERATOR
  | OPEN_PAREN
  | BLOCK_START
  | BLOCK_END
  | LINE_COMMENT
  | BLOCK_COMMENT
  | EOF

text \<open>
  The interface \<open>Token\<close> is declared in the token module as well. A token carries the
  fields that the sources read or write: \<open>type\<close>, \<open>raw\<close> and
  \<open>text\<close> in the disambiguation passes, \<open>type\<close>, \<open>text\<close>, \<open>value\<close> and
  \<open>whitespaceBefore\<close> in the statement formatter. An object spread
  \<open>{ ...token, type: T, text: s }\<close> is the record update of these two fields.
\<close>

record Token =
  type :: TokenType
  raw :: string
  "text" :: string
  "value" :: string
  whitespaceBefore :: string

text \<open>
  Modelled from the spec: \<open>isReserved\<close> of the token module is not part of the sources at
  hand. The specification speaks of the \<open>RESERVED_*\<close> categories; these are the eleven
  categories of its data model whose name starts with \<open>RESERVED_\<close>.
\<close>

fun isReserved :: "TokenType \<Rightarrow> bool" where
  "isReserved RESERVED_COMMAND = True"
| "isReserved RESERVED_BINARY_COMMAND = True"
| "isReserved RESERVED_DEPENDENT_CLAUSE = True"
| "isReserved RESERVED_JOIN_CONDITION = True"
| "isReserved RESERVED_LOGICAL_OPERATOR = True"
| "isReserved RESERVED_KEYWORD = True"
| "isReserved RESERVED_FUNCTION_NAME = True"
| "isReserved RESERVED_DATA_TYPE = True"
| "isReserved RESERVED_PARAMETERIZED_DATA_TYPE = True"
| "isReserved RESERVED_CASE_START = True"
| "isReserved RESERVED_CASE_END = True"
| "isReserved _ = False"

section \<open>JavaScript arrays\<close>

text \<open>
  \<open>xs[i]\<close> on a JavaScript array is \<open>undefined\<close> for every index outside
  \<open>0 .. length - 1\<close>, negative ones included; \<open>undefined\<close> is \<open>None\<close>.
\<close>

definition js_index :: "'a list \<Rightarrow> int \<Rightarrow> 'a option" where
  "js_index xs i = (if 0 \<le> i \<and> i < int (length xs) then Some (xs ! nat i) else None)"

text \<open>
  \<open>xs.map(f)\<close> calls \<open>f(x, i, xs)\<close> with the element, its index and the array that is
  being mapped (not the array under construction).
\<close>

definition js_map :: "('a \<Rightarrow> nat \<Rightarrow> 'a list \<Rightarrow> 'b) \<Rightarrow> 'a list \<Rightarrow> 'b list" where
  "js_map f xs = map (\<lambda>i. f (xs ! i) i xs) [0..<length xs]"

section \<open>The disambiguation passes (disambiguateTokens.ts)\<close>

definition isOpenParen :: "Token \<Rightarrow> bool" where
  "isOpenParen t = (type t = OPEN_PAREN \<and> text t = ''('')"

definition isOpenBracket :: "Token \<Rightarrow> bool" where
  "isOpenBracket t = (type t = OPEN_PAREN \<and> text t = ''['')"

definition isComment :: "Token \<Rightarrow> bool" where
  "isComment t = (type t = BLOCK_COMMENT \<or> type t = LINE_COMMENT)"

text \<open>The parameter \<open>dir: -1 | 1\<close> of \<open>nextNonCommentToken\<close>.\<close>

datatype Dir = Backward | Forward

fun dir_int :: "Dir \<Rightarrow> int" where
  "dir_int Backward = - 1"
| "dir_int Forward = 1"

text \<open>
  The loop \<open>while (tokens[index + i * dir] && isComment(tokens[index + i * dir])) i++\<close>;
  the function returns the value of \<open>i\<close> at which the loop stops.
\<close>

function nextNonCommentLoop :: "Token list \<Rightarrow> int \<Rightarrow> Dir \<Rightarrow> nat \<Rightarrow> nat" where
  "nextNonCommentLoop tokens index dir i =
     (case js_index tokens (index + int i * dir_int dir) of
        None \<Rightarrow> i
      | Some t \<Rightarrow> if isComment t then nextNonCommentLoop tokens index dir (Suc i) else i)"
  by pat_completeness auto
termination
proof (relation "measure (\<lambda>(tokens, index, dir, i).
         case dir of Forward \<Rightarrow> nat (int (length tokens) - index - int i)
                   | Backward \<Rightarrow> nat (index - int i + 1))")
  show "wf (measure (\<lambda>(tokens, index, dir, i).
         case dir of Forward \<Rightarrow> nat (int (length tokens) - index - int i)
                   | Backward \<Rightarrow> nat (index - int i + 1)))"
    by simp
next
  fix tokens :: "Token list" and index :: int and dir :: Dir and i :: nat and t :: Token
  assume "js_index tokens (index + int i * dir_int dir) = Some t"
  then have "0 \<le> index + int i * dir_int dir \<and> index + int i * dir_int dir < int (length tokens)"
    by (simp add: js_index_def split: if_splits)
  then show "((tokens, index, dir, Suc i), (tokens, index, dir, i))
      \<in> measure (\<lambda>(tokens, index, dir, i).
         case dir of Forward \<Rightarrow> nat (int (length tokens) - index - int i)
                   | Backward \<Rightarrow> nat (index - int i + 1))"
    by (cases dir) auto
qed

declare nextNonCommentLoop.simps [simp del]

definition nextNonCommentToken :: "Token list \<Rightarrow> int \<Rightarrow> Dir \<Rightarrow> Token option" where
  "nextNonCommentToken tokens index dir =
     js_index tokens (index + int (nextNonCommentLoop tokens index dir 1) * dir_int dir)"

definition prevNonCommentToken :: "Token list \<Rightarrow> int \<Rightarrow> Token option" where
  "prevNonCommentToken tokens index = nextNonCommentToken tokens index Backward"

text \<open>
  The five callbacks. A test \<open>t && p(t)\<close> on a possibly undefined token is false for
  \<open>undefined\<close>; \<open>!t || !p(t)\<close> is true for it.
\<close>

definition propertyNameKeywordToIdent :: "Token \<Rightarrow> nat \<Rightarrow> Token list \<Rightarrow> Token" where
  "propertyNameKeywordToIdent token i tokens =
     (if isReserved (type token) then
        (if (case prevNonCommentToken tokens (int i) of
               None \<Rightarrow> False
             | Some prevToken \<Rightarrow> type prevToken = PROPERTY_ACCESS_OPERATOR)
         then token\<lparr>type := IDENTIFIER, text := raw token\<rparr>
         else if (case nextNonCommentToken tokens (int i) Forward of
               None \<Rightarrow> False
             | Some nextToken \<Rightarrow> type nextToken = PROPERTY_ACCESS_OPERATOR)
         then token\<lparr>type := IDENTIFIER, text := raw token\<rparr>
         else token)
      else token)"

definition funcNameToIdent :: "Token \<Rightarrow> nat \<Rightarrow> Token list \<Rightarrow> Token" where
  "funcNameToIdent token i tokens =
     (if type token = RESERVED_FUNCTION_NAME then
        (if (case nextNonCommentToken tokens (int i) Forward of
               None \<Rightarrow> True
             | Some nextToken \<Rightarrow> \<not> isOpenParen nextToken)
         then token\<lparr>type := IDENTIFIER, text := raw token\<rparr>
         else token)
      else token)"

definition dataTypeToParameterizedDataType :: "Token \<Rightarrow> nat \<Rightarrow> Token list \<Rightarrow> Token" where
  "dataTypeToParameterizedDataType token i tokens =
     (if type token = RESERVED_DATA_TYPE then
        (if (case nextNonCommentToken tokens (int i) Forward of
               None \<Rightarrow> False
             | Some nextToken \<Rightarrow> isOpenParen nextToken)
         then token\<lparr>type := RESERVED_PARAMETERIZED_DATA_TYPE\<rparr>
         else token)
      else token)"

definition identToArrayIdent :: "Token \<Rightarrow> nat \<Rightarrow> Token list \<Rightarrow> Token" where
  "identToArrayIdent token i tokens =
     (if type token = IDENTIFIER then
        (if (case nextNonCommentToken tokens (int i) Forward of
               None \<Rightarrow> False
             | Some nextToken \<Rightarrow> isOpenBracket nextToken)
         then token\<lparr>type := ARRAY_IDENTIFIER\<rparr>
         else token)
      else token)"

definition dataTypeToArrayKeyword :: "Token \<Rightarrow> nat \<Rightarrow> Token list \<Rightarrow> Token" where
  "dataTypeToArrayKeyword token i tokens =
     (if type token = RESERVED_DATA_TYPE then
        (if (case nextNonCommentToken tokens (int i) Forward of
               None \<Rightarrow> False
             | Some nextToken \<Rightarrow> isOpenBracket nextToken)
         then token\<lparr>type := ARRAY_KEYWORD\<rparr>
         else token)
      else token)"

definition disambiguateTokens :: "Token list \<Rightarrow> Token list" where
  "disambiguateTokens tokens =
     js_map dataTypeToArrayKeyword
       (js_map identToArrayIdent
         (js_map dataTypeToParameterizedDataType
           (js_map funcNameToIdent
             (js_map propertyNameKeywordToIdent tokens))))"

section \<open>The entry point \<open>format\<close>\<close>

text \<open>
  The formatter classes of the dialects are imported from modules that are not part of the
  sources at hand; they are opaque values here. \<open>CustomFormatter\<close> stands for a class that
  a caller passes as \<open>language\<close> instead of a dialect name.
\<close>

datatype FormatterClass =
    BigQueryFormatter | Db2Formatter | HiveFormatter | MariaDbFormatter | MySqlFormatter
  | N1qlFormatter | PlSqlFormatter | PostgreSqlFormatter | RedshiftFormatter | SparkFormatter
  | SqliteFormatter | SqlFormatter | TrinoFormatter | TransactSqlFormatter
  | SingleStoreDbFormatter | SnowflakeFormatter | CustomFormatter nat

text \<open>
  An options object is a map from property names to values; a property that is absent is
  \<open>None\<close>. The spread \<open>{ ...a, ...b }\<close> is \<open>a ++ b\<close>.
\<close>

datatype OptionValue = Str string | Num int | Bool bool | Cls FormatterClass

type_synonym Options = "string \<rightharpoonup> OptionValue"

datatype FormatError = ConfigError string | InputError | TypeError

definition formatters :: "(string \<times> FormatterClass) list" where
  "formatters =
     [(''bigquery'', BigQueryFormatter),
      (''db2'', Db2Formatter),
      (''hive'', HiveFormatter),
      (''mariadb'', MariaDbFormatter),
      (''mysql'', MySqlFormatter),
      (''n1ql'', N1qlFormatter),
      (''plsql'', PlSqlFormatter),
      (''postgresql'', PostgreSqlFormatter),
      (''redshift'', RedshiftFormatter),
      (''singlestoredb'', SingleStoreDbFormatter),
      (''snowflake'', SnowflakeFormatter),
      (''spark'', SparkFormatter),
      (''sql'', SqlFormatter),
      (''sqlite'', SqliteFormatter),
      (''transactsql'', TransactSqlFormatter),
      (''trino'', TrinoFormatter),
      (''tsql'', TransactSqlFormatter)]"

text \<open>\<open>Object.keys(formatters)\<close>: the own property names, in insertion order.\<close>

definition supportedDialects :: "string list" where
  "supportedDialects = map fst formatters"

definition defaultOptions :: Options where
  "defaultOptions = map_of
     [(''language'', Str ''sql''),
      (''tabWidth'', Num 2),
      (''useTabs'', Bool False),
      (''keywordCase'', Str ''preserve''),
      (''indentStyle'', Str ''standard''),
      (''logicalOperatorNewline'', Str ''before''),
      (''tabulateAlias'', Bool False),
      (''commaPosition'', Str ''after''),
      (''expressionWidth'', Num 50),
      (''linesBetweenQueries'', Num 1),
      (''denseOperators'', Bool False),
      (''newlineBeforeSemicolon'', Bool False)]"

text \<open>The first argument of \<open>format\<close> as JavaScript may pass it: a string or something else.\<close>

datatype Query = QueryString string | QueryNotString

text \<open>
  Modelled from the spec: \<open>validateQuery\<close> of the module \<open>validateConfigs\<close> is not part of
  the sources at hand. The specification has one error for the query, \<open>InputError\<close>, raised
  when the query is not a string or is absent; a string passes.
\<close>

definition validateQuery :: "Query \<Rightarrow> FormatError + string" where
  "validateQuery query = (case query of QueryString q \<Rightarrow> Inr q | QueryNotString \<Rightarrow> Inl InputError)"

text \<open>
  \<open>format\<close>. Its two collaborators that are not part of the sources at hand are parameters:
  \<open>validateConfig\<close>, which returns the validated options or throws, and \<open>runFormatter\<close>,
  which stands for \<open>new FormatterCls(options).format(query)\<close>. A missing second argument
  takes the default \<open>defaultOptions\<close>. Looking up a name that \<open>formatters\<close> does not have
  gives \<open>undefined\<close>, and \<open>new undefined(...)\<close> throws a \<open>TypeError\<close>.
\<close>

definition format ::
  "(Options \<Rightarrow> FormatError + Options) \<Rightarrow>
   (FormatterClass \<Rightarrow> Options \<Rightarrow> string \<Rightarrow> FormatError + string) \<Rightarrow>
   Query \<Rightarrow> Options option \<Rightarrow> FormatError + string" where
  "format validateConfig runFormatter query cfgArg =
     (let cfg = (case cfgArg of None \<Rightarrow> defaultOptions | Some c \<Rightarrow> c) in
      case validateQuery query of
        Inl e \<Rightarrow> Inl e
      | Inr q \<Rightarrow>
         (let continue =
            (case validateConfig (defaultOptions ++ cfg) of
               Inl e \<Rightarrow> Inl e
             | Inr options \<Rightarrow>
                (case (case options ''language'' of
                         Some (Str l) \<Rightarrow> map_of formatters l
                       | Some (Cls c) \<Rightarrow> Some c
                       | _ \<Rightarrow> None) of
                   None \<Rightarrow> Inl TypeError
                 | Some FormatterCls \<Rightarrow> runFormatter FormatterCls options q))
          in case cfg ''language'' of
               Some (Str l) \<Rightarrow>
                 if l \<notin> set supportedDialects
                 then Inl (ConfigError (''Unsupported SQL dialect: '' @ l))
                 else continue
             | _ \<Rightarrow> continue))"

section \<open>The statement formatter (class \<open>StatementFormatter\<close>)\<close>

datatype KeywordCase = Preserve | Upper | Lower

datatype IndentStyle = Standard | TabularLeft | TabularRight

datatype LogicalOperatorNewline = Before | After

text \<open>\<open>multilineLists\<close>: one of three names, or a number.\<close>

datatype MultilineLists = Always | Avoid | ExpressionWidth | Lines int

text \<open>The options that the methods below read.\<close>

record FormatOptions =
  keywordCase :: KeywordCase
  indentStyle :: IndentStyle
  logicalOperatorNewline :: LogicalOperatorNewline
  expressionWidth :: int
  denseOperators :: bool
  newlineBeforeSemicolon :: bool
  multilineLists :: MultilineLists

text \<open>
  The formatter imports \<open>isReserved\<close>, \<open>isCommand\<close>, \<open>isToken\<close> and \<open>EOF_TOKEN\<close> from its
  token module and \<open>equalizeWhitespace\<close> from \<open>utils\<close>; none of them is part of the sources
  at hand, and the specification does not define them. They are parameters of the model,
  collected in one record, together with the string methods \<open>toUpperCase\<close> and
  \<open>toLowerCase\<close> of JavaScript.
\<close>

record TokenModule =
  isReservedToken :: "Token \<Rightarrow> bool"
  isCommand :: "Token \<Rightarrow> bool"
  isToken_AND :: "Token \<Rightarrow> bool"
  isToken_BETWEEN :: "Token \<Rightarrow> bool"
  isToken_CASE :: "Token \<Rightarrow> bool"
  isToken_LIMIT :: "Token \<Rightarrow> bool"
  isToken_SELECT :: "Token \<Rightarrow> bool"
  EOF_TOKEN :: Token
  equalizeWhitespace :: "string \<Rightarrow> string"
  toUpperCase :: "string \<Rightarrow> string"
  toLowerCase :: "string \<Rightarrow> string"

text \<open>
  The classes \<open>StringBuilder\<close> and \<open>Indentation\<close> are not part of the sources at hand.
  A call of a method of \<open>this.query\<close> or \<open>this.indentation\<close> is recorded, in the order in
  which the formatter makes it.
\<close>

datatype Call =
    AddWithSpaces string
  | AddWithSpaceBefore string
  | AddWithSpaceAfter string
  | AddWithoutSpaces string
  | AddNewline
  | DecreaseTopLevel

text \<open>
  The fields of the formatter. \<open>inlineBlockActive\<close> is what \<open>this.inlineBlock.isActive()\<close>
  returns (the class \<open>InlineBlock\<close> is not part of the sources at hand); \<open>calls\<close> is the
  record of the calls made so far.
\<close>

record StatementFormatter =
  cfg :: FormatOptions
  currentNewline :: bool
  previousReservedToken :: Token
  previousCommandToken :: Token
  tokens :: "Token list"
  index :: int
  inlineBlockActive :: bool
  calls :: "Call list"

definition call :: "Call \<Rightarrow> StatementFormatter \<Rightarrow> StatementFormatter" where
  "call c st = st\<lparr>calls := calls st @ [c]\<rparr>"

text \<open>
  Modelled from the spec: \<open>isTabularStyle\<close> of the module \<open>config\<close> is not part of the
  sources at hand. The specification's tabular mode is \<open>indentStyle\<close> being \<open>tabularLeft\<close>
  or \<open>tabularRight\<close>.
\<close>

definition isTabularStyle :: "FormatOptions \<Rightarrow> bool" where
  "isTabularStyle c = (indentStyle c = TabularLeft \<or> indentStyle c = TabularRight)"

text \<open>\<open>xs.slice(start)\<close> and \<open>xs.slice(0, end)\<close>; a negative bound counts from the end.\<close>

definition js_slice_from :: "'a list \<Rightarrow> int \<Rightarrow> 'a list" where
  "js_slice_from xs start =
     (if start < 0 then drop (nat (int (length xs) + start)) xs else drop (nat start) xs)"

definition js_slice_to :: "'a list \<Rightarrow> int \<Rightarrow> 'a list" where
  "js_slice_to xs end =
     (if end < 0 then take (nat (int (length xs) + end)) xs else take (nat end) xs)"

text \<open>\<open>xs.findIndex(p)\<close>: the first index whose element satisfies \<open>p\<close>, or \<open>-1\<close>.\<close>

fun js_findIndex :: "('a \<Rightarrow> bool) \<Rightarrow> 'a list \<Rightarrow> int" where
  "js_findIndex p [] = - 1"
| "js_findIndex p (x # xs) =
     (if p x then 0 else (let k = js_findIndex p xs in if k < 0 then - 1 else k + 1))"

text \<open>\<open>tokenLookBehind(n)\<close> and \<open>tokenLookAhead(n)\<close>: \<open>this.tokens[...] || EOF_TOKEN\<close>.\<close>

definition tokenLookBehind :: "TokenModule \<Rightarrow> StatementFormatter \<Rightarrow> int \<Rightarrow> Token" where
  "tokenLookBehind env st n =
     (case js_index (tokens st) (index st - n) of None \<Rightarrow> EOF_TOKEN env | Some t \<Rightarrow> t)"

definition tokenLookAhead :: "TokenModule \<Rightarrow> StatementFormatter \<Rightarrow> int \<Rightarrow> Token" where
  "tokenLookAhead env st n =
     (case js_index (tokens st) (index st + n) of None \<Rightarrow> EOF_TOKEN env | Some t \<Rightarrow> t)"

definition getPreviousReservedToken :: "StatementFormatter \<Rightarrow> Token" where
  "getPreviousReservedToken st = previousReservedToken st"

definition isWithinSelect :: "TokenModule \<Rightarrow> StatementFormatter \<Rightarrow> bool" where
  "isWithinSelect env st = isToken_SELECT env (previousCommandToken st)"

text \<open>\<open>show\<close>: the text that is written for a token.\<close>

definition show_token :: "TokenModule \<Rightarrow> StatementFormatter \<Rightarrow> Token \<Rightarrow> string" where
  "show_token env st token =
     (if isReservedToken env token then
        (case keywordCase (cfg st) of
           Preserve \<Rightarrow> equalizeWhitespace env (text token)
         | Upper \<Rightarrow> equalizeWhitespace env (toUpperCase env (text token))
         | Lower \<Rightarrow> equalizeWhitespace env (toLowerCase env (text token)))
      else value token)"

definition tokensUntilNextCommandOrQueryEnd ::
  "TokenModule \<Rightarrow> StatementFormatter \<Rightarrow> Token list" where
  "tokensUntilNextCommandOrQueryEnd env st =
     (let tail = js_slice_from (tokens st) (index st + 1) in
      if length tail \<noteq> 0
      then js_slice_to tail (js_findIndex (\<lambda>token. isCommand env token \<or> value token = '';'') tail)
      else tail)"

definition inlineWidth :: "Token \<Rightarrow> Token list \<Rightarrow> int" where
  "inlineWidth token ts =
     (let tokensString = concat (map (\<lambda>t. if value t = '','' then value t @ '' '' else value t) ts)
      in int (length (whitespaceBefore token @ value token @ '' '' @ tokensString)))"

text \<open>The loop of \<open>countClauses\<close>, with its two counters.\<close>

fun countClausesLoop :: "Token list \<Rightarrow> int \<Rightarrow> int \<Rightarrow> int" where
  "countClausesLoop [] count openBlocks = count"
| "countClausesLoop (t # ts) count openBlocks =
     (let count1 = (if value t = '','' \<and> openBlocks = 0 then count + 1 else count);
          openBlocks1 = (if type t = BLOCK_START then openBlocks + 1 else openBlocks);
          openBlocks2 = (if type t = BLOCK_END then openBlocks1 - 1 else openBlocks1)
      in countClausesLoop ts count1 openBlocks2)"

definition countClauses :: "Token list \<Rightarrow> int" where
  "countClauses ts = countClausesLoop ts 1 0"

definition checkNewline :: "TokenModule \<Rightarrow> StatementFormatter \<Rightarrow> Token \<Rightarrow> bool" where
  "checkNewline env st token =
     (let nextTokens = tokensUntilNextCommandOrQueryEnd env st in
      if isWithinSelect env st \<and> list_ex (isToken_CASE env) nextTokens then True
      else (case multilineLists (cfg st) of
              Always \<Rightarrow> True
            | Avoid \<Rightarrow> False
            | ExpressionWidth \<Rightarrow> inlineWidth token nextTokens > expressionWidth (cfg st)
            | Lines n \<Rightarrow>
                countClauses nextTokens > n \<or>
                inlineWidth token nextTokens > expressionWidth (cfg st)))"

definition formatComma :: "TokenModule \<Rightarrow> StatementFormatter \<Rightarrow> Token \<Rightarrow> StatementFormatter" where
  "formatComma env st token =
     (let st1 = call (AddWithSpaceAfter (show_token env st token)) st in
      if inlineBlockActive st1 then st1
      else if isToken_LIMIT env (getPreviousReservedToken st1) then st1
      else if currentNewline st1 then call AddNewline st1
      else st1)"

definition formatQuerySeparator ::
  "TokenModule \<Rightarrow> StatementFormatter \<Rightarrow> Token \<Rightarrow> StatementFormatter" where
  "formatQuerySeparator env st token =
     (let st1 = (if newlineBeforeSemicolon (cfg st) then call AddNewline st else st)
      in call (AddWithoutSpaces (show_token env st1 token)) st1)"

definition formatOperator :: "TokenModule \<Rightarrow> StatementFormatter \<Rightarrow> Token \<Rightarrow> StatementFormatter" where
  "formatOperator env st token =
     (if value token = '','' then formatComma env st token
      else if value token = '';'' then formatQuerySeparator env st token
      else if value token \<in> set [''$'', ''['']
        then call (AddWithSpaceBefore (show_token env st token)) st
      else if value token \<in> set ['':'', '']'']
        then call (AddWithSpaceAfter (show_token env st token)) st
      else if value token \<in> set [''.'', ''{'', ''}'', [CHR 0x60]]
        then call (AddWithoutSpaces (show_token env st token)) st
      else if denseOperators (cfg st) \<and> type (tokenLookBehind env st 1) \<noteq> RESERVED_COMMAND
        then call (AddWithoutSpaces (show_token env st token)) st
      else call (AddWithSpaces (show_token env st token)) st)"

definition formatLogicalOperator ::
  "TokenModule \<Rightarrow> StatementFormatter \<Rightarrow> Token \<Rightarrow> StatementFormatter" where
  "formatLogicalOperator env st token =
     (if isToken_AND env token \<and> isToken_BETWEEN env (tokenLookBehind env st 2)
      then call (AddWithSpaces (show_token env st token)) st
      else
        (let st1 = (if isTabularStyle (cfg st) then call DecreaseTopLevel st else st) in
         if logicalOperatorNewline (cfg st1) = Before
         then
           (let st2 = (if currentNewline st1 then call AddNewline st1 else st1)
            in call (AddWithSpaces (show_token env st2 token)) st2)
         else
           (let st2 = call (AddWithSpaceBefore (show_token env st1 token)) st1
            in if currentNewline st2 then call AddNewline st2 else st2)))"

subsection \<open>The clause count in the words of the specification\<close>

text \<open>
  The block depth in front of position \<open>i\<close>: the opening blocks minus the closing blocks
  among the first \<open>i\<close> tokens. The clause count: the commas at block depth zero, plus one.
\<close>

definition blockDepth :: "Token list \<Rightarrow> nat \<Rightarrow> int" where
  "blockDepth ts i =
     int (length (filter (\<lambda>t. type t = BLOCK_START) (take i ts))) -
     int (length (filter (\<lambda>t. type t = BLOCK_END) (take i ts)))"

definition clauseCount :: "Token list \<Rightarrow> int" where
  "clauseCount ts =
     int (length (filter (\<lambda>i. value (ts ! i) = '','' \<and> blockDepth ts i = 0) [0..<length ts])) + 1"

subsection \<open>The tail of a command in the words of the specification\<close>

text \<open>
  The tokens from the current command up to the next command or \<open>;\<close>, or up to the end of
  the statement when neither follows.
\<close>

definition tailOfCommand :: "TokenModule \<Rightarrow> StatementFormatter \<Rightarrow> Token list" where
  "tailOfCommand env st =
     takeWhile (\<lambda>token. \<not> (isCommand env token \<or> value token = '';''))
       (drop (nat (index st + 1)) (tokens st))"

subsection \<open>Auxiliary notions for the proofs\<close>

text \<open>
  \<open>nextIs P ts k dir\<close>: the nearest non-comment token of position \<open>k\<close> of \<open>ts\<close> in
  direction \<open>dir\<close> exists and satisfies \<open>P\<close> (the test \<open>t && P(t)\<close> of the callbacks).
\<close>

definition nextIs :: "(Token \<Rightarrow> bool) \<Rightarrow> Token list \<Rightarrow> int \<Rightarrow> Dir \<Rightarrow> bool" where
  "nextIs P ts k dir =
     (case nextNonCommentToken ts k dir of None \<Rightarrow> False | Some t \<Rightarrow> P t)"

definition isPropertyAccess :: "Token \<Rightarrow> bool" where
  "isPropertyAccess t = (type t = PROPERTY_ACCESS_OPERATOR)"

text \<open>
  Two tokens are alike for the neighbour tests when the four tests the passes apply to a
  neighbour give the same answer on both; two streams are alike when they have the same
  length and are alike position by position.
\<close>

definition frame :: "Token \<Rightarrow> Token \<Rightarrow> bool" where
  "frame t t' \<longleftrightarrow>
     isComment t' = isComment t \<and> isOpenParen t' = isOpenParen t \<and>
     isOpenBracket t' = isOpenBracket t \<and> isPropertyAccess t' = isPropertyAccess t"

definition framed :: "Token list \<Rightarrow> Token list \<Rightarrow> bool" where
  "framed ts ts' \<longleftrightarrow> length ts' = length ts \<and> (\<forall>j<length ts. frame (ts ! j) (ts' ! j))"

definition toIdent :: "Token \<Rightarrow> Token" where
  "toIdent t = t\<lparr>type := IDENTIFIER, text := raw t\<rparr>"

text \<open>What each pass makes of the token at one position, given the answers of its tests.\<close>

definition step1 :: "Token \<Rightarrow> bool \<Rightarrow> Token" where
  "step1 t nearDot = (if isReserved (type t) \<and> nearDot then toIdent t else t)"

definition step2 :: "Token \<Rightarrow> bool \<Rightarrow> Token" where
  "step2 t beforeParen =
     (if type t = RESERVED_FUNCTION_NAME \<and> \<not> beforeParen then toIdent t else t)"

definition step3 :: "Token \<Rightarrow> bool \<Rightarrow> Token" where
  "step3 t beforeParen =
     (if type t = RESERVED_DATA_TYPE \<and> beforeParen
      then t\<lparr>type := RESERVED_PARAMETERIZED_DATA_TYPE\<rparr> else t)"

definition step4 :: "Token \<Rightarrow> bool \<Rightarrow> Token" where
  "step4 t beforeBracket =
     (if type t = IDENTIFIER \<and> beforeBracket then t\<lparr>type := ARRAY_IDENTIFIER\<rparr> else t)"

definition step5 :: "Token \<Rightarrow> bool \<Rightarrow> Token" where
  "step5 t beforeBracket =
     (if type t = RESERVED_DATA_TYPE \<and> beforeBracket then t\<lparr>type := ARRAY_KEYWORD\<rparr> else t)"

definition rewritten :: "Token \<Rightarrow> bool \<Rightarrow> bool \<Rightarrow> bool \<Rightarrow> Token" where
  "rewritten t nearDot beforeParen beforeBracket =
     step5 (step4 (step3 (step2 (step1 t nearDot) beforeParen) beforeParen) beforeBracket)
       beforeBracket"

subsection \<open>Example streams\<close>

definition mkToken :: "TokenType \<Rightarrow> string \<Rightarrow> string \<Rightarrow> Token" where
  "mkToken ty r t = \<lparr>type = ty, raw = r, text = t, value = t, whitespaceBefore = []\<rparr>"

text \<open>\<^verbatim>\<open>array[1]\<close>, with \<open>array\<close> lexed as a function name.\<close>

definition array_literal :: "Token list" where
  "array_literal =
     [mkToken RESERVED_FUNCTION_NAME ''array'' ''ARRAY'', mkToken OPEN_PAREN ''['' ''['',
      mkToken NUMBER ''1'' ''1'', mkToken OPERATOR '']'' '']'']"

text \<open>\<^verbatim>\<open>t.values[1]\<close>, with \<open>values\<close> lexed as a keyword.\<close>

definition keyword_member_access :: "Token list" where
  "keyword_member_access =
     [mkToken IDENTIFIER ''t'' ''t'', mkToken PROPERTY_ACCESS_OPERATOR ''.'' ''.'',
      mkToken RESERVED_KEYWORD ''values'' ''VALUES'', mkToken OPEN_PAREN ''['' ''['',
      mkToken NUMBER ''1'' ''1'', mkToken OPERATOR '']'' '']'']"

text \<open>\<^verbatim>\<open>count /* all */ (x), now\<close>: a call with a comment before the parenthesis, and a
  function name that is not called.\<close>

definition call_and_name :: "Token list" where
  "call_and_name =
     [mkToken RESERVED_FUNCTION_NAME ''count'' ''COUNT'',
      mkToken BLOCK_COMMENT ''/* all */'' ''/* all */'',
      mkToken OPEN_PAREN ''('' ''('', mkToken IDENTIFIER ''x'' ''x'',
      mkToken BLOCK_END '')'' '')'', mkToken OPERATOR '','' '','',
      mkToken RESERVED_FUNCTION_NAME ''now'' ''NOW'']"

text \<open>\<^verbatim>\<open>t.key -- id\<close> followed by \<^verbatim>\<open>from u\<close>: a keyword after a dot, a line comment, and
  a command away from any dot.\<close>

definition member_then_command :: "Token list" where
  "member_then_command =
     [mkToken IDENTIFIER ''t'' ''t'', mkToken PROPERTY_ACCESS_OPERATOR ''.'' ''.'',
      mkToken RESERVED_KEYWORD ''key'' ''KEY'', mkToken LINE_COMMENT ''-- id'' ''-- id'',
      mkToken RESERVED_COMMAND ''from'' ''FROM'', mkToken IDENTIFIER ''u'' ''u'']"

subsection \<open>A sample token module and sample statements\<close>

text \<open>
  An instance of the parameters, for running the model on concrete statements: a token is
  the word \<open>X\<close> when it has the category of \<open>X\<close> and the canonical value \<open>X\<close>; a token is
  reserved when its category is; the end-of-file token has the category \<open>EOF\<close> and empty
  strings. Letter case is changed on the letters \<open>a\<close> to \<open>z\<close> and \<open>A\<close> to \<open>Z\<close>, and a run
  of blanks, tabs and line ends becomes one blank.
\<close>

definition ascii_upper :: "char \<Rightarrow> char" where
  "ascii_upper c =
     (let n = (of_char c :: nat) in if 97 \<le> n \<and> n \<le> 122 then char_of (n - 32) else c)"

definition ascii_lower :: "char \<Rightarrow> char" where
  "ascii_lower c =
     (let n = (of_char c :: nat) in if 65 \<le> n \<and> n \<le> 90 then char_of (n + 32) else c)"

definition is_blank :: "char \<Rightarrow> bool" where
  "is_blank c = (c \<in> set [CHR '' '', CHR 0x09, CHR 0x0A, CHR 0x0D])"

fun collapse_blanks :: "string \<Rightarrow> string" where
  "collapse_blanks [] = []"
| "collapse_blanks [c] = [if is_blank c then CHR '' '' else c]"
| "collapse_blanks (c # d # cs) =
     (if is_blank c
      then (if is_blank d then collapse_blanks (d # cs) else CHR '' '' # collapse_blanks (d # cs))
      else c # collapse_blanks (d # cs))"

definition sampleModule :: TokenModule where
  "sampleModule =
     \<lparr>isReservedToken = (\<lambda>t. isReserved (type t)),
      isCommand = (\<lambda>t. type t = RESERVED_COMMAND),
      isToken_AND = (\<lambda>t. type t = RESERVED_LOGICAL_OPERATOR \<and> value t = ''AND''),
      isToken_BETWEEN = (\<lambda>t. type t = RESERVED_KEYWORD \<and> value t = ''BETWEEN''),
      isToken_CASE = (\<lambda>t. type t = RESERVED_CASE_START \<and> value t = ''CASE''),
      isToken_LIMIT = (\<lambda>t. type t = RESERVED_COMMAND \<and> value t = ''LIMIT''),
      isToken_SELECT = (\<lambda>t. type t = RESERVED_COMMAND \<and> value t = ''SELECT''),
      EOF_TOKEN = \<lparr>type = EOF, raw = [], text = [], value = [], whitespaceBefore = []\<rparr>,
      equalizeWhitespace = collapse_blanks,
      toUpperCase = map ascii_upper,
      toLowerCase = map ascii_lower\<rparr>"

text \<open>A token of the formatter: category, source text, canonical value, preceding blanks.\<close>

definition word :: "TokenType \<Rightarrow> string \<Rightarrow> string \<Rightarrow> string \<Rightarrow> Token" where
  "word ty t v w = \<lparr>type = ty, raw = t, text = t, value = v, whitespaceBefore = w\<rparr>"

definition sampleOptions :: FormatOptions where
  "sampleOptions =
     \<lparr>keywordCase = Preserve, indentStyle = Standard, logicalOperatorNewline = Before,
      expressionWidth = 50, denseOperators = False, newlineBeforeSemicolon = False,
      multilineLists = Always\<rparr>"

text \<open>The formatter in front of the token at position \<open>i\<close> of a statement, nothing written.\<close>

definition formatterAt ::
  "FormatOptions \<Rightarrow> Token list \<Rightarrow> int \<Rightarrow> bool \<Rightarrow> Token \<Rightarrow> Token \<Rightarrow> StatementFormatter" where
  "formatterAt c ts i nl r k =
     \<lparr>cfg = c, currentNewline = nl, previousReservedToken = r, previousCommandToken = k,
      tokens = ts, index = i, inlineBlockActive = False, calls = []\<rparr>"

text \<open>\<^verbatim>\<open>select a, b from t\<close>\<close>

definition select_list :: "Token list" where
  "select_list =
     [word RESERVED_COMMAND ''select'' ''SELECT'' [],
      word IDENTIFIER ''a'' ''a'' '' '',
      word OPERATOR '','' '','' [],
      word IDENTIFIER ''b'' ''b'' '' '',
      word RESERVED_COMMAND ''from'' ''FROM'' '' '',
      word IDENTIFIER ''t'' ''t'' '' '']"

text \<open>\<^verbatim>\<open>where x between 1 and 2\<close>\<close>

definition between_clause :: "Token list" where
  "between_clause =
     [word RESERVED_COMMAND ''where'' ''WHERE'' [],
      word IDENTIFIER ''x'' ''x'' '' '',
      word RESERVED_KEYWORD ''between'' ''BETWEEN'' '' '',
      word NUMBER ''1'' ''1'' '' '',
      word RESERVED_LOGICAL_OPERATOR ''and'' ''AND'' '' '',
      word NUMBER ''2'' ''2'' '' '']"

text \<open>\<^verbatim>\<open>select case when a then 1 else 2 end from t\<close>\<close>

definition select_case :: "Token list" where
  "select_case =
     [word RESERVED_COMMAND ''select'' ''SELECT'' [],
      word RESERVED_CASE_START ''case'' ''CASE'' '' '',
      word RESERVED_DEPENDENT_CLAUSE ''when'' ''WHEN'' '' '',
      word IDENTIFIER ''a'' ''a'' '' '',
      word RESERVED_KEYWORD ''then'' ''THEN'' '' '',
      word NUMBER ''1'' ''1'' '' '',
      word RESERVED_DEPENDENT_CLAUSE ''else'' ''ELSE'' '' '',
      word NUMBER ''2'' ''2'' '' '',
      word RESERVED_CASE_END ''end'' ''END'' '' '',
      word RESERVED_COMMAND ''from'' ''FROM'' '' '',
      word IDENTIFIER ''t'' ''t'' '' '']"

text \<open>\<^verbatim>\<open>select a, f(b, c), d from t\<close>\<close>

definition select_call :: "Token list" where
  "select_call =
     [word RESERVED_COMMAND ''select'' ''SELECT'' [],
      word IDENTIFIER ''a'' ''a'' '' '',
      word OPERATOR '','' '','' [],
      word IDENTIFIER ''f'' ''f'' '' '',
      word BLOCK_START ''('' ''('' [],
      word IDENTIFIER ''b'' ''b'' [],
      word OPERATOR '','' '','' [],
      word IDENTIFIER ''c'' ''c'' '' '',
      word BLOCK_END '')'' '')'' [],
      word OPERATOR '','' '','' [],
      word IDENTIFIER ''d'' ''d'' '' '',
      word RESERVED_COMMAND ''from'' ''FROM'' '' '',
      word IDENTIFIER ''t'' ''t'' '' '']"

text \<open>\<^verbatim>\<open>select case\<close>, a statement that ends with the \<open>case\<close>\<close>

definition select_case_only :: "Token list" where
  "select_case_only =
     [word RESERVED_COMMAND ''select'' ''SELECT'' [],
      word RESERVED_CASE_START ''case'' ''CASE'' '' '']"

text \<open>\<^verbatim>\<open>select a,\<close>, a statement that ends with a comma\<close>

definition select_trailing_comma :: "Token list" where
  "select_trailing_comma =
     [word RESERVED_COMMAND ''select'' ''SELECT'' [],
      word IDENTIFIER ''a'' ''a'' '' '',
      word OPERATOR '','' '','' []]"

text \<open>\<^verbatim>\<open>select a, b\<close>, a statement without \<open>;\<close>\<close>

definition select_pair :: "Token list" where
  "select_pair =
     [word RESERVED_COMMAND ''select'' ''SELECT'' [],
      word IDENTIFIER ''a'' ''a'' '' '',
      word OPERATOR '','' '','' [],
      word IDENTIFIER ''b'' ''b'' '' '']"

text \<open>
  \<^verbatim>\<open>select a from t, u;\<close> with the blanks \<open>w\<close> in front of \<open>from\<close> left open.
\<close>

definition select_from :: "string \<Rightarrow> Token list" where
  "select_from w =
     [word RESERVED_COMMAND ''select'' ''SELECT'' [],
      word IDENTIFIER ''a'' ''a'' '' '',
      word RESERVED_COMMAND ''from'' ''FROM'' w,
      word IDENTIFIER ''t'' ''t'' '' '',
      word OPERATOR '','' '','' [],
      word IDENTIFIER ''u'' ''u'' '' '',
      word OPERATOR '';'' '';'' []]"

section \<open>Properties of the disambiguation passes\<close>

lemma length_js_map: "length (js_map f xs) = length xs"
  by (simp add: js_map_def)

lemma nth_js_map: "i < length xs \<Longrightarrow> js_map f xs ! i = f (xs ! i) i xs"
  by (simp add: js_map_def)

lemma framed_trans: "framed ts ts' \<Longrightarrow> framed ts' ts'' \<Longrightarrow> framed ts ts''"
  by (simp add: framed_def frame_def)

lemma js_index_framed:
  assumes "framed ts ts'"
  shows "js_index ts' k = (case js_index ts k of None \<Rightarrow> None | Some t \<Rightarrow> Some (ts' ! nat k))"
  using assms by (simp add: js_index_def framed_def)

text \<open>The comment-skipping loop stops at the same place in two streams that are alike.\<close>

lemma loop_framed:
  assumes "framed ts ts'"
  shows "nextNonCommentLoop ts' k dir i = nextNonCommentLoop ts k dir i"
  using assms
proof (induction ts k dir i rule: nextNonCommentLoop.induct)
  case (1 us k dir i)
  let ?p = "k + int i * dir_int dir"
  show ?case
  proof (cases "js_index us ?p")
    case None
    then have "js_index ts' ?p = None"
      using "1.prems" by (simp add: js_index_framed)
    with None show ?thesis
      by (simp add: nextNonCommentLoop.simps [of us k dir i]
          nextNonCommentLoop.simps [of ts' k dir i])
  next
    case (Some t)
    then have p: "0 \<le> ?p" "nat ?p < length us" and t: "t = us ! nat ?p"
      by (auto simp: js_index_def split: if_splits)
    have s': "js_index ts' ?p = Some (ts' ! nat ?p)"
      using "1.prems" Some by (simp add: js_index_framed)
    have c: "isComment (ts' ! nat ?p) = isComment t"
      using "1.prems" p t by (simp add: framed_def frame_def)
    show ?thesis
    proof (cases "isComment t")
      case True
      then have "nextNonCommentLoop ts' k dir (Suc i) = nextNonCommentLoop us k dir (Suc i)"
        using "1.IH" [OF Some True "1.prems"] by simp
      with True Some s' c show ?thesis
        by (simp add: nextNonCommentLoop.simps [of us k dir i]
            nextNonCommentLoop.simps [of ts' k dir i])
    next
      case False
      with Some s' c show ?thesis
        by (simp add: nextNonCommentLoop.simps [of us k dir i]
            nextNonCommentLoop.simps [of ts' k dir i])
    qed
  qed
qed

lemma nextIs_framed:
  assumes "framed ts ts'"
  shows "nextIs isOpenParen ts' k dir = nextIs isOpenParen ts k dir"
    and "nextIs isOpenBracket ts' k dir = nextIs isOpenBracket ts k dir"
    and "nextIs isPropertyAccess ts' k dir = nextIs isPropertyAccess ts k dir"
  using assms
  by (auto simp: nextIs_def nextNonCommentToken_def loop_framed js_index_framed
      js_index_def framed_def frame_def split: option.splits if_splits)

lemma nextIs_iff:
  "nextIs P ts k dir \<longleftrightarrow> (\<exists>t. nextNonCommentToken ts k dir = Some t \<and> P t)"
  by (simp add: nextIs_def split: option.splits)

subsection \<open>Each pass, position by position\<close>

lemma pass1_nth:
  "i < length ts \<Longrightarrow> js_map propertyNameKeywordToIdent ts ! i =
     (if isReserved (type (ts ! i)) \<and>
         (nextIs isPropertyAccess ts (int i) Backward \<or> nextIs isPropertyAccess ts (int i) Forward)
      then toIdent (ts ! i) else ts ! i)"
  by (simp add: nth_js_map propertyNameKeywordToIdent_def prevNonCommentToken_def nextIs_def
      isPropertyAccess_def toIdent_def split: option.splits)

lemma pass2_nth:
  "i < length ts \<Longrightarrow> js_map funcNameToIdent ts ! i =
     (if type (ts ! i) = RESERVED_FUNCTION_NAME \<and> \<not> nextIs isOpenParen ts (int i) Forward
      then toIdent (ts ! i) else ts ! i)"
  by (simp add: nth_js_map funcNameToIdent_def nextIs_def toIdent_def split: option.splits)

lemma pass3_nth:
  "i < length ts \<Longrightarrow> js_map dataTypeToParameterizedDataType ts ! i =
     (if type (ts ! i) = RESERVED_DATA_TYPE \<and> nextIs isOpenParen ts (int i) Forward
      then (ts ! i)\<lparr>type := RESERVED_PARAMETERIZED_DATA_TYPE\<rparr> else ts ! i)"
  by (simp add: nth_js_map dataTypeToParameterizedDataType_def nextIs_def split: option.splits)

lemma pass4_nth:
  "i < length ts \<Longrightarrow> js_map identToArrayIdent ts ! i =
     (if type (ts ! i) = IDENTIFIER \<and> nextIs isOpenBracket ts (int i) Forward
      then (ts ! i)\<lparr>type := ARRAY_IDENTIFIER\<rparr> else ts ! i)"
  by (simp add: nth_js_map identToArrayIdent_def nextIs_def split: option.splits)

lemma pass5_nth:
  "i < length ts \<Longrightarrow> js_map dataTypeToArrayKeyword ts ! i =
     (if type (ts ! i) = RESERVED_DATA_TYPE \<and> nextIs isOpenBracket ts (int i) Forward
      then (ts ! i)\<lparr>type := ARRAY_KEYWORD\<rparr> else ts ! i)"
  by (simp add: nth_js_map dataTypeToArrayKeyword_def nextIs_def split: option.splits)

lemma frame_toIdent: "isReserved (type t) \<Longrightarrow> frame t (toIdent t)"
  by (auto simp: frame_def toIdent_def isComment_def isOpenParen_def isOpenBracket_def
      isPropertyAccess_def)

lemma frame_refl: "frame t t"
  by (simp add: frame_def)

lemma frame_retype:
  "ty \<notin> {OPEN_PAREN, LINE_COMMENT, BLOCK_COMMENT, PROPERTY_ACCESS_OPERATOR} \<Longrightarrow>
   type t \<notin> {OPEN_PAREN, LINE_COMMENT, BLOCK_COMMENT, PROPERTY_ACCESS_OPERATOR} \<Longrightarrow>
   frame t (t\<lparr>type := ty\<rparr>)"
  by (simp add: frame_def isComment_def isOpenParen_def isOpenBracket_def isPropertyAccess_def)

lemma pass1_framed: "framed ts (js_map propertyNameKeywordToIdent ts)"
  by (simp add: framed_def length_js_map pass1_nth frame_toIdent frame_refl)

lemma pass2_framed: "framed ts (js_map funcNameToIdent ts)"
  by (simp add: framed_def length_js_map pass2_nth frame_toIdent frame_refl)

lemma pass3_framed: "framed ts (js_map dataTypeToParameterizedDataType ts)"
  by (simp add: framed_def length_js_map pass3_nth frame_retype frame_refl)

lemma pass4_framed: "framed ts (js_map identToArrayIdent ts)"
  by (simp add: framed_def length_js_map pass4_nth frame_retype frame_refl)

lemma pass5_framed: "framed ts (js_map dataTypeToArrayKeyword ts)"
  by (simp add: framed_def length_js_map pass5_nth frame_retype frame_refl)

lemma disambiguate_framed: "framed ts (disambiguateTokens ts)"
  unfolding disambiguateTokens_def
  by (rule framed_trans [OF framed_trans [OF framed_trans [OF framed_trans
      [OF pass1_framed pass2_framed] pass3_framed] pass4_framed] pass5_framed])

lemma length_disambiguateTokens: "length (disambiguateTokens ts) = length ts"
  using disambiguate_framed [of ts] by (simp add: framed_def)

lemma nextIs_disambiguate:
  "nextIs isOpenParen (disambiguateTokens ts) k dir = nextIs isOpenParen ts k dir"
  "nextIs isOpenBracket (disambiguateTokens ts) k dir = nextIs isOpenBracket ts k dir"
  "nextIs isPropertyAccess (disambiguateTokens ts) k dir = nextIs isPropertyAccess ts k dir"
  by (rule nextIs_framed [OF disambiguate_framed])+

subsection \<open>The five passes together, position by position\<close>

lemma disambiguate_nth:
  assumes i: "i < length ts"
  shows "disambiguateTokens ts ! i =
     rewritten (ts ! i)
       (nextIs isPropertyAccess ts (int i) Backward \<or> nextIs isPropertyAccess ts (int i) Forward)
       (nextIs isOpenParen ts (int i) Forward)
       (nextIs isOpenBracket ts (int i) Forward)"
proof -
  define ts1 where "ts1 = js_map propertyNameKeywordToIdent ts"
  define ts2 where "ts2 = js_map funcNameToIdent ts1"
  define ts3 where "ts3 = js_map dataTypeToParameterizedDataType ts2"
  define ts4 where "ts4 = js_map identToArrayIdent ts3"
  have d: "disambiguateTokens ts = js_map dataTypeToArrayKeyword ts4"
    by (simp only: disambiguateTokens_def ts4_def ts3_def ts2_def ts1_def)
  have f1: "framed ts ts1"
    unfolding ts1_def by (rule pass1_framed)
  have f2: "framed ts ts2"
    unfolding ts2_def by (rule framed_trans [OF f1 pass2_framed])
  have f3: "framed ts ts3"
    unfolding ts3_def by (rule framed_trans [OF f2 pass3_framed])
  have f4: "framed ts ts4"
    unfolding ts4_def by (rule framed_trans [OF f3 pass4_framed])
  have l: "i < length ts1" "i < length ts2" "i < length ts3" "i < length ts4"
    using i f1 f2 f3 f4 by (simp_all only: framed_def)
  have e1: "ts1 ! i = step1 (ts ! i)
      (nextIs isPropertyAccess ts (int i) Backward \<or> nextIs isPropertyAccess ts (int i) Forward)"
    unfolding ts1_def step1_def by (rule pass1_nth [OF i])
  have e2: "ts2 ! i = step2 (ts1 ! i) (nextIs isOpenParen ts (int i) Forward)"
    unfolding ts2_def step2_def nextIs_framed [OF f1, symmetric] by (rule pass2_nth [OF l(1)])
  have e3: "ts3 ! i = step3 (ts2 ! i) (nextIs isOpenParen ts (int i) Forward)"
    unfolding ts3_def step3_def nextIs_framed [OF f2, symmetric] by (rule pass3_nth [OF l(2)])
  have e4: "ts4 ! i = step4 (ts3 ! i) (nextIs isOpenBracket ts (int i) Forward)"
    unfolding ts4_def step4_def nextIs_framed [OF f3, symmetric] by (rule pass4_nth [OF l(3)])
  have e5: "disambiguateTokens ts ! i = step5 (ts4 ! i) (nextIs isOpenBracket ts (int i) Forward)"
    unfolding d step5_def nextIs_framed [OF f4, symmetric] by (rule pass5_nth [OF l(4)])
  show ?thesis
    by (simp only: rewritten_def e5 e4 e3 e2 e1)
qed

lemmas step_defs = rewritten_def step1_def step2_def step3_def step4_def step5_def toIdent_def

lemma rewritten_fields:
  "raw (rewritten t nd bp bb) = raw t"
  "value (rewritten t nd bp bb) = value t"
  "whitespaceBefore (rewritten t nd bp bb) = whitespaceBefore t"
  by (simp_all add: step_defs)

lemma rewritten_eq:
  "rewritten t nd bp bb =
     t\<lparr>type := type (rewritten t nd bp bb), text := text (rewritten t nd bp bb)\<rparr>"
  by (simp add: step_defs)

lemma rewritten_reserved:
  "isReserved (type (rewritten t nd bp bb)) \<Longrightarrow> isReserved (type t) \<and> \<not> nd"
  by (auto simp: step_defs split: if_splits)

lemma rewritten_funcname:
  "type (rewritten t nd bp bb) = RESERVED_FUNCTION_NAME \<Longrightarrow> bp"
  by (auto simp: step_defs split: if_splits)

lemma rewritten_funcname_not_called:
  "type t = RESERVED_FUNCTION_NAME \<Longrightarrow> \<not> bp \<Longrightarrow>
   type (rewritten t nd bp bb) = (if bb then ARRAY_IDENTIFIER else IDENTIFIER) \<and>
   text (rewritten t nd bp bb) = raw t"
  by (simp add: step_defs)

lemma rewritten_near_dot:
  "isReserved (type t) \<Longrightarrow> nd \<Longrightarrow>
   type (rewritten t nd bp bb) = (if bb then ARRAY_IDENTIFIER else IDENTIFIER) \<and>
   text (rewritten t nd bp bb) = raw t"
  by (simp add: step_defs)

lemma rewritten_text:
  "text (rewritten t nd bp bb) \<noteq> text t \<Longrightarrow>
   isReserved (type t) \<and> text (rewritten t nd bp bb) = raw t \<and>
   (type (rewritten t nd bp bb) = IDENTIFIER \<or> type (rewritten t nd bp bb) = ARRAY_IDENTIFIER)"
  by (auto simp: step_defs split: if_splits)

lemma rewritten_comment: "isComment t \<Longrightarrow> rewritten t nd bp bb = t"
  by (auto simp: step_defs isComment_def)

subsection \<open>Function names and the open parenthesis\<close>

text \<open>
  Claim C4, as the code has it. In the stream that \<open>disambiguateTokens\<close> returns, the
  nearest non-comment token after every \<open>RESERVED_FUNCTION_NAME\<close> token is an open
  parenthesis \<open>(\<close>. A \<open>RESERVED_FUNCTION_NAME\<close> token of the input that is not so followed
  is rewritten: it ends as \<open>IDENTIFIER\<close>, or as \<open>ARRAY_IDENTIFIER\<close> when its nearest
  non-comment successor is an open bracket \<open>[\<close> (the fourth pass sees the identifier the
  second pass made), and its text is its raw form.
\<close>

theorem funcName_followed_by_paren:
  "(\<forall>i<length (disambiguateTokens ts).
      type (disambiguateTokens ts ! i) = RESERVED_FUNCTION_NAME \<longrightarrow>
      (\<exists>t. nextNonCommentToken (disambiguateTokens ts) (int i) Forward = Some t \<and>
           isOpenParen t)) \<and>
   (\<forall>i<length ts.
      type (ts ! i) = RESERVED_FUNCTION_NAME \<and>
      \<not> (\<exists>t. nextNonCommentToken ts (int i) Forward = Some t \<and> isOpenParen t) \<longrightarrow>
      type (disambiguateTokens ts ! i) =
        (if \<exists>t. nextNonCommentToken ts (int i) Forward = Some t \<and> isOpenBracket t
         then ARRAY_IDENTIFIER else IDENTIFIER) \<and>
      text (disambiguateTokens ts ! i) = raw (ts ! i))"
proof (intro conjI allI impI)
  fix i
  assume i: "i < length (disambiguateTokens ts)"
    and f: "type (disambiguateTokens ts ! i) = RESERVED_FUNCTION_NAME"
  from i have i': "i < length ts"
    by (simp add: length_disambiguateTokens)
  from f have "nextIs isOpenParen ts (int i) Forward"
    unfolding disambiguate_nth [OF i'] by (rule rewritten_funcname)
  then have "nextIs isOpenParen (disambiguateTokens ts) (int i) Forward"
    by (simp only: nextIs_disambiguate)
  then show "\<exists>t. nextNonCommentToken (disambiguateTokens ts) (int i) Forward = Some t \<and>
      isOpenParen t"
    by (simp only: nextIs_iff)
next
  fix i
  assume i: "i < length ts"
    and h: "type (ts ! i) = RESERVED_FUNCTION_NAME \<and>
      \<not> (\<exists>t. nextNonCommentToken ts (int i) Forward = Some t \<and> isOpenParen t)"
  from h have f: "type (ts ! i) = RESERVED_FUNCTION_NAME"
    and n: "\<not> nextIs isOpenParen ts (int i) Forward"
    by (simp_all only: nextIs_iff simp_thms)
  show "type (disambiguateTokens ts ! i) =
        (if \<exists>t. nextNonCommentToken ts (int i) Forward = Some t \<and> isOpenBracket t
         then ARRAY_IDENTIFIER else IDENTIFIER)"
    unfolding disambiguate_nth [OF i] nextIs_iff [symmetric]
    using rewritten_funcname_not_called [OF f n] by blast
  show "text (disambiguateTokens ts ! i) = raw (ts ! i)"
    unfolding disambiguate_nth [OF i]
    using rewritten_funcname_not_called [OF f n] by blast
qed

text \<open>
  On \<^verbatim>\<open>count /* all */ (x), now\<close>: \<open>count\<close> stays a function name and the token after
  the comment is the parenthesis; \<open>now\<close>, followed by nothing, becomes an identifier.
\<close>

theorem funcName_followed_by_paren_witness:
  "0 < length (disambiguateTokens call_and_name) \<and>
   type (disambiguateTokens call_and_name ! 0) = RESERVED_FUNCTION_NAME \<and>
   (\<exists>t. nextNonCommentToken (disambiguateTokens call_and_name) 0 Forward = Some t \<and>
        isOpenParen t) \<and>
   6 < length call_and_name \<and>
   type (call_and_name ! 6) = RESERVED_FUNCTION_NAME \<and>
   nextNonCommentToken call_and_name 6 Forward = None \<and>
   type (disambiguateTokens call_and_name ! 6) = IDENTIFIER \<and>
   text (disambiguateTokens call_and_name ! 6) = ''now''"
proof -
  have a: "0 < length (disambiguateTokens call_and_name)"
    "type (disambiguateTokens call_and_name ! 0) = RESERVED_FUNCTION_NAME"
    by code_simp+
  have b: "6 < length call_and_name" "type (call_and_name ! 6) = RESERVED_FUNCTION_NAME"
    "nextNonCommentToken call_and_name 6 Forward = None" "raw (call_and_name ! 6) = ''now''"
    by code_simp+
  from funcName_followed_by_paren [of call_and_name]
  have 1: "\<forall>i<length (disambiguateTokens call_and_name).
      type (disambiguateTokens call_and_name ! i) = RESERVED_FUNCTION_NAME \<longrightarrow>
      (\<exists>t. nextNonCommentToken (disambiguateTokens call_and_name) (int i) Forward = Some t \<and>
           isOpenParen t)"
    and 2: "\<forall>i<length call_and_name.
      type (call_and_name ! i) = RESERVED_FUNCTION_NAME \<and>
      \<not> (\<exists>t. nextNonCommentToken call_and_name (int i) Forward = Some t \<and> isOpenParen t) \<longrightarrow>
      type (disambiguateTokens call_and_name ! i) =
        (if \<exists>t. nextNonCommentToken call_and_name (int i) Forward = Some t \<and> isOpenBracket t
         then ARRAY_IDENTIFIER else IDENTIFIER) \<and>
      text (disambiguateTokens call_and_name ! i) = raw (call_and_name ! i)"
    by blast+
  from 1 a have c: "\<exists>t. nextNonCommentToken (disambiguateTokens call_and_name) 0 Forward = Some t \<and>
        isOpenParen t"
    by fastforce
  from 2 [rule_format, of 6] b
  have d: "type (disambiguateTokens call_and_name ! 6) = IDENTIFIER \<and>
      text (disambiguateTokens call_and_name ! 6) = ''now''"
    by simp
  from a b c d show ?thesis by blast
qed

text \<open>
  The claim as written says that a function name not followed by \<open>(\<close> has been rewritten to
  \<open>IDENTIFIER\<close>. On \<^verbatim>\<open>array[1]\<close> the function name is followed by \<open>[\<close>, and it leaves
  \<open>disambiguateTokens\<close> as \<open>ARRAY_IDENTIFIER\<close>.
\<close>

theorem funcName_before_bracket_counterexample:
  "type (array_literal ! 0) = RESERVED_FUNCTION_NAME \<and>
   nextNonCommentToken array_literal 0 Forward = Some (array_literal ! 1) \<and>
   \<not> isOpenParen (array_literal ! 1) \<and>
   type (disambiguateTokens array_literal ! 0) = ARRAY_IDENTIFIER \<and>
   type (disambiguateTokens array_literal ! 0) \<noteq> IDENTIFIER"
  by code_simp

subsection \<open>Reserved words and the property-access operator\<close>

text \<open>
  Claim C5, as the code has it. In the stream that \<open>disambiguateTokens\<close> returns, no token
  of a \<open>RESERVED_*\<close> category has a \<open>PROPERTY_ACCESS_OPERATOR\<close> as its nearest non-comment
  predecessor or successor. A reserved token of the input with such a neighbour is
  rewritten: it ends as \<open>IDENTIFIER\<close>, or as \<open>ARRAY_IDENTIFIER\<close> when its nearest
  non-comment successor is an open bracket \<open>[\<close>, and its text is its raw form.
\<close>

theorem reserved_not_next_to_property_access:
  "(\<forall>i<length (disambiguateTokens ts).
      isReserved (type (disambiguateTokens ts ! i)) \<longrightarrow>
      \<not> (\<exists>p. prevNonCommentToken (disambiguateTokens ts) (int i) = Some p \<and>
             type p = PROPERTY_ACCESS_OPERATOR) \<and>
      \<not> (\<exists>n. nextNonCommentToken (disambiguateTokens ts) (int i) Forward = Some n \<and>
             type n = PROPERTY_ACCESS_OPERATOR)) \<and>
   (\<forall>i<length ts.
      isReserved (type (ts ! i)) \<and>
      ((\<exists>p. prevNonCommentToken ts (int i) = Some p \<and> type p = PROPERTY_ACCESS_OPERATOR) \<or>
       (\<exists>n. nextNonCommentToken ts (int i) Forward = Some n \<and>
            type n = PROPERTY_ACCESS_OPERATOR)) \<longrightarrow>
      type (disambiguateTokens ts ! i) =
        (if \<exists>t. nextNonCommentToken ts (int i) Forward = Some t \<and> isOpenBracket t
         then ARRAY_IDENTIFIER else IDENTIFIER) \<and>
      text (disambiguateTokens ts ! i) = raw (ts ! i))"
proof -
  have dot: "\<And>us k dir. (\<exists>t. nextNonCommentToken us k dir = Some t \<and>
      type t = PROPERTY_ACCESS_OPERATOR) = nextIs isPropertyAccess us k dir"
    by (simp add: nextIs_iff isPropertyAccess_def)
  show ?thesis
    unfolding prevNonCommentToken_def dot
  proof (intro conjI allI impI)
    fix i
    assume i: "i < length (disambiguateTokens ts)"
      and r: "isReserved (type (disambiguateTokens ts ! i))"
    from i have i': "i < length ts"
      by (simp add: length_disambiguateTokens)
    from r have "\<not> (nextIs isPropertyAccess ts (int i) Backward \<or>
        nextIs isPropertyAccess ts (int i) Forward)"
      unfolding disambiguate_nth [OF i'] by (rule rewritten_reserved [THEN conjunct2])
    then show "\<not> nextIs isPropertyAccess (disambiguateTokens ts) (int i) Backward"
      and "\<not> nextIs isPropertyAccess (disambiguateTokens ts) (int i) Forward"
      by (simp_all add: nextIs_disambiguate)
  next
    fix i
    assume i: "i < length ts"
      and h: "isReserved (type (ts ! i)) \<and>
        (nextIs isPropertyAccess ts (int i) Backward \<or> nextIs isPropertyAccess ts (int i) Forward)"
    from h have r: "isReserved (type (ts ! i))"
      and n: "nextIs isPropertyAccess ts (int i) Backward \<or>
        nextIs isPropertyAccess ts (int i) Forward"
      by blast+
    show "type (disambiguateTokens ts ! i) =
        (if \<exists>t. nextNonCommentToken ts (int i) Forward = Some t \<and> isOpenBracket t
         then ARRAY_IDENTIFIER else IDENTIFIER)"
      unfolding disambiguate_nth [OF i] nextIs_iff [symmetric]
      using rewritten_near_dot [OF r n] by blast
    show "text (disambiguateTokens ts ! i) = raw (ts ! i)"
      unfolding disambiguate_nth [OF i]
      using rewritten_near_dot [OF r n] by blast
  qed
qed

text \<open>
  On \<^verbatim>\<open>t.key -- id\<close>, \<^verbatim>\<open>from u\<close>: the keyword after the dot becomes an identifier with its
  raw text; the command \<open>from\<close> stays reserved, and its nearest non-comment neighbours (the
  rewritten \<open>key\<close> behind the line comment, and \<open>u\<close>) are not dots.
\<close>

theorem reserved_not_next_to_property_access_witness:
  "4 < length (disambiguateTokens member_then_command) \<and>
   isReserved (type (disambiguateTokens member_then_command ! 4)) \<and>
   prevNonCommentToken (disambiguateTokens member_then_command) 4 =
     Some (disambiguateTokens member_then_command ! 2) \<and>
   type (disambiguateTokens member_then_command ! 2) \<noteq> PROPERTY_ACCESS_OPERATOR \<and>
   2 < length member_then_command \<and>
   isReserved (type (member_then_command ! 2)) \<and>
   prevNonCommentToken member_then_command 2 = Some (member_then_command ! 1) \<and>
   type (member_then_command ! 1) = PROPERTY_ACCESS_OPERATOR \<and>
   type (disambiguateTokens member_then_command ! 2) = IDENTIFIER \<and>
   text (disambiguateTokens member_then_command ! 2) = ''key''"
proof -
  have a: "4 < length (disambiguateTokens member_then_command)"
    "isReserved (type (disambiguateTokens member_then_command ! 4))"
    "prevNonCommentToken (disambiguateTokens member_then_command) 4 =
       Some (disambiguateTokens member_then_command ! 2)"
    by code_simp+
  have b: "2 < length member_then_command"
    "isReserved (type (member_then_command ! 2))"
    "prevNonCommentToken member_then_command 2 = Some (member_then_command ! 1)"
    "type (member_then_command ! 1) = PROPERTY_ACCESS_OPERATOR"
    "nextNonCommentToken member_then_command 2 Forward = Some (member_then_command ! 4)"
    "\<not> isOpenBracket (member_then_command ! 4)"
    "raw (member_then_command ! 2) = ''key''"
    by code_simp+
  from reserved_not_next_to_property_access [of member_then_command]
  have 1: "\<forall>i<length (disambiguateTokens member_then_command).
      isReserved (type (disambiguateTokens member_then_command ! i)) \<longrightarrow>
      \<not> (\<exists>p. prevNonCommentToken (disambiguateTokens member_then_command) (int i) = Some p \<and>
             type p = PROPERTY_ACCESS_OPERATOR) \<and>
      \<not> (\<exists>n. nextNonCommentToken (disambiguateTokens member_then_command) (int i) Forward = Some n \<and>
             type n = PROPERTY_ACCESS_OPERATOR)"
    and 2: "\<forall>i<length member_then_command.
      isReserved (type (member_then_command ! i)) \<and>
      ((\<exists>p. prevNonCommentToken member_then_command (int i) = Some p \<and>
            type p = PROPERTY_ACCESS_OPERATOR) \<or>
       (\<exists>n. nextNonCommentToken member_then_command (int i) Forward = Some n \<and>
            type n = PROPERTY_ACCESS_OPERATOR)) \<longrightarrow>
      type (disambiguateTokens member_then_command ! i) =
        (if \<exists>t. nextNonCommentToken member_then_command (int i) Forward = Some t \<and> isOpenBracket t
         then ARRAY_IDENTIFIER else IDENTIFIER) \<and>
      text (disambiguateTokens member_then_command ! i) = raw (member_then_command ! i)"
    by blast+
  from 1 [rule_format, of 4] a
  have c: "type (disambiguateTokens member_then_command ! 2) \<noteq> PROPERTY_ACCESS_OPERATOR"
    by simp
  from 2 [rule_format, of 2] b
  have d: "type (disambiguateTokens member_then_command ! 2) = IDENTIFIER \<and>
      text (disambiguateTokens member_then_command ! 2) = ''key''"
    by simp
  from a b c d show ?thesis by blast
qed

text \<open>
  The claim as written says that a reserved token next to a dot is rewritten to
  \<open>IDENTIFIER\<close>. On \<^verbatim>\<open>t.values[1]\<close> the keyword after the dot is followed by \<open>[\<close>, and it
  leaves \<open>disambiguateTokens\<close> as \<open>ARRAY_IDENTIFIER\<close>.
\<close>

theorem reserved_near_dot_before_bracket_counterexample:
  "isReserved (type (keyword_member_access ! 2)) \<and>
   prevNonCommentToken keyword_member_access 2 = Some (keyword_member_access ! 1) \<and>
   type (keyword_member_access ! 1) = PROPERTY_ACCESS_OPERATOR \<and>
   type (disambiguateTokens keyword_member_access ! 2) = ARRAY_IDENTIFIER \<and>
   type (disambiguateTokens keyword_member_access ! 2) \<noteq> IDENTIFIER"
  by code_simp

subsection \<open>What the passes leave alone\<close>

text \<open>
  Claim C9. \<open>disambiguateTokens\<close> returns a list of the length of its input. At every
  position the output token has the \<open>value\<close>, the \<open>whitespaceBefore\<close> and the \<open>raw\<close> of the
  input token, and differs from it at most in \<open>type\<close> and \<open>text\<close>. The text changes only
  when a reserved token is turned into an identifier, and it becomes the raw form. A
  comment token is returned as it is.
\<close>

theorem disambiguateTokens_frame:
  "length (disambiguateTokens ts) = length ts \<and>
   (\<forall>i<length ts.
      value (disambiguateTokens ts ! i) = value (ts ! i) \<and>
      whitespaceBefore (disambiguateTokens ts ! i) = whitespaceBefore (ts ! i) \<and>
      raw (disambiguateTokens ts ! i) = raw (ts ! i) \<and>
      disambiguateTokens ts ! i =
        (ts ! i)\<lparr>type := type (disambiguateTokens ts ! i),
                 text := text (disambiguateTokens ts ! i)\<rparr> \<and>
      (text (disambiguateTokens ts ! i) \<noteq> text (ts ! i) \<longrightarrow>
         isReserved (type (ts ! i)) \<and>
         text (disambiguateTokens ts ! i) = raw (ts ! i) \<and>
         (type (disambiguateTokens ts ! i) = IDENTIFIER \<or>
          type (disambiguateTokens ts ! i) = ARRAY_IDENTIFIER)) \<and>
      (isComment (ts ! i) \<longrightarrow> disambiguateTokens ts ! i = ts ! i))"
proof (intro conjI allI impI)
  show "length (disambiguateTokens ts) = length ts"
    by (rule length_disambiguateTokens)
next
  fix i
  assume i: "i < length ts"
  note d = disambiguate_nth [OF i]
  show "value (disambiguateTokens ts ! i) = value (ts ! i)"
    and "whitespaceBefore (disambiguateTokens ts ! i) = whitespaceBefore (ts ! i)"
    and "raw (disambiguateTokens ts ! i) = raw (ts ! i)"
    unfolding d by (rule rewritten_fields)+
  show "disambiguateTokens ts ! i =
        (ts ! i)\<lparr>type := type (disambiguateTokens ts ! i),
                 text := text (disambiguateTokens ts ! i)\<rparr>"
    unfolding d by (rule rewritten_eq)
  {
    assume "text (disambiguateTokens ts ! i) \<noteq> text (ts ! i)"
    then have *: "isReserved (type (ts ! i)) \<and>
        text (disambiguateTokens ts ! i) = raw (ts ! i) \<and>
        (type (disambiguateTokens ts ! i) = IDENTIFIER \<or>
         type (disambiguateTokens ts ! i) = ARRAY_IDENTIFIER)"
      unfolding d by (rule rewritten_text)
    from * show "isReserved (type (ts ! i))" by blast
    from * show "text (disambiguateTokens ts ! i) = raw (ts ! i)" by blast
    from * show "type (disambiguateTokens ts ! i) = IDENTIFIER \<or>
        type (disambiguateTokens ts ! i) = ARRAY_IDENTIFIER" by blast
  }
  {
    assume "isComment (ts ! i)"
    then show "disambiguateTokens ts ! i = ts ! i"
      unfolding d by (rule rewritten_comment)
  }
qed

text \<open>
  On \<^verbatim>\<open>t.key -- id\<close>, \<^verbatim>\<open>from u\<close>: six tokens come back; the text of \<open>key\<close> changes from its
  canonical form to its raw form, its value does not; the line comment is unchanged.
\<close>

theorem disambiguateTokens_frame_witness:
  "length (disambiguateTokens member_then_command) = 6 \<and>
   text (member_then_command ! 2) = ''KEY'' \<and>
   text (disambiguateTokens member_then_command ! 2) = ''key'' \<and>
   value (disambiguateTokens member_then_command ! 2) = ''KEY'' \<and>
   isReserved (type (member_then_command ! 2)) \<and>
   isComment (member_then_command ! 3) \<and>
   disambiguateTokens member_then_command ! 3 = member_then_command ! 3"
proof -
  have a: "length member_then_command = 6" "text (member_then_command ! 2) = ''KEY''"
    "text (disambiguateTokens member_then_command ! 2) = ''key''"
    "value (member_then_command ! 2) = ''KEY''"
    "isComment (member_then_command ! 3)"
    by code_simp+
  from disambiguateTokens_frame [of member_then_command] a(1)
  have l: "length (disambiguateTokens member_then_command) = 6"
    by simp
  from disambiguateTokens_frame [of member_then_command]
  have 1: "\<forall>i<length member_then_command.
      value (disambiguateTokens member_then_command ! i) = value (member_then_command ! i) \<and>
      (text (disambiguateTokens member_then_command ! i) \<noteq> text (member_then_command ! i) \<longrightarrow>
         isReserved (type (member_then_command ! i))) \<and>
      (isComment (member_then_command ! i) \<longrightarrow>
         disambiguateTokens member_then_command ! i = member_then_command ! i)"
    by blast
  from 1 [rule_format, of 2] a
  have b: "value (disambiguateTokens member_then_command ! 2) = ''KEY'' \<and>
      isReserved (type (member_then_command ! 2))"
    by simp
  from 1 [rule_format, of 3] a
  have c: "disambiguateTokens member_then_command ! 3 = member_then_command ! 3"
    by simp
  from a l b c show ?thesis by blast
qed

section \<open>Properties of the statement formatter\<close>

lemma js_findIndex_eq:
  "js_findIndex p xs = (if \<exists>x\<in>set xs. p x then int (length (takeWhile (\<lambda>x. \<not> p x) xs)) else - 1)"
  by (induction xs) (auto simp: Let_def)

lemma js_slice_to_findIndex:
  "js_slice_to xs (js_findIndex p xs) =
     (if \<exists>x\<in>set xs. p x then takeWhile (\<lambda>x. \<not> p x) xs else butlast xs)"
proof (cases "\<exists>x\<in>set xs. p x")
  case True
  then show ?thesis
    by (simp add: js_slice_to_def js_findIndex_eq takeWhile_eq_take [symmetric])
next
  case False
  have "nat (int (length xs) - 1) = length xs - 1"
    by simp
  with False show ?thesis
    by (simp add: js_slice_to_def js_findIndex_eq butlast_conv_take)
qed

text \<open>
  What \<open>tokensUntilNextCommandOrQueryEnd\<close> returns: the tokens after the current one up to
  the next command or \<open>;\<close>; when there is neither, \<open>findIndex\<close> gives \<open>-1\<close> and
  \<open>slice(0, -1)\<close> leaves the last token of the statement out.
\<close>

lemma tokensUntil_eq:
  assumes "- 1 \<le> index st"
  shows "tokensUntilNextCommandOrQueryEnd env st =
     (let tail = drop (nat (index st + 1)) (tokens st);
          stop = (\<lambda>token. isCommand env token \<or> value token = '';'')
      in if \<exists>t\<in>set tail. stop t then takeWhile (\<lambda>t. \<not> stop t) tail else butlast tail)"
proof -
  have "js_slice_from (tokens st) (index st + 1) = drop (nat (index st + 1)) (tokens st)"
    using assms by (simp add: js_slice_from_def)
  then show ?thesis
    by (auto simp: tokensUntilNextCommandOrQueryEnd_def js_slice_to_findIndex Let_def)
qed

lemma tokensUntil_tailOfCommand:
  assumes "- 1 \<le> index st"
  shows "tokensUntilNextCommandOrQueryEnd env st =
     (if \<exists>t\<in>set (drop (nat (index st + 1)) (tokens st)). isCommand env t \<or> value t = '';''
      then tailOfCommand env st else butlast (tailOfCommand env st))"
proof (cases "\<exists>t\<in>set (drop (nat (index st + 1)) (tokens st)). isCommand env t \<or> value t = '';''")
  case True
  then show ?thesis
    using tokensUntil_eq [OF assms, of env] by (simp add: Let_def tailOfCommand_def)
next
  case False
  then have "tailOfCommand env st = drop (nat (index st + 1)) (tokens st)"
    unfolding tailOfCommand_def by (simp add: takeWhile_eq_all_conv)
  with False show ?thesis
    using tokensUntil_eq [OF assms, of env] by (simp add: Let_def)
qed

lemma blockDepth_0: "blockDepth ts 0 = 0"
  by (simp add: blockDepth_def)

lemma blockDepth_Suc:
  "blockDepth (t # ts) (Suc i) =
     (if type t = BLOCK_START then 1 else 0) - (if type t = BLOCK_END then 1 else 0) +
     blockDepth ts i"
  by (simp add: blockDepth_def)

text \<open>The loop of \<open>countClauses\<close>, started with any two counter values.\<close>

lemma countClausesLoop_eq:
  "countClausesLoop ts c ob =
     c + int (length (filter (\<lambda>i. value (ts ! i) = '','' \<and> ob + blockDepth ts i = 0)
                        [0..<length ts]))"
proof (induction ts arbitrary: c ob)
  case Nil
  show ?case by simp
next
  case (Cons t ts)
  have upt: "[0..<length (t # ts)] = 0 # map Suc [0..<length ts]"
    by (simp only: length_Cons upt_conv_Cons [OF zero_less_Suc] map_Suc_upt)
  show ?case
    unfolding upt
    by (simp add: Cons.IH Let_def filter_map o_def blockDepth_0 blockDepth_Suc algebra_simps)
qed

lemma countClauses_clauseCount: "countClauses ts = clauseCount ts"
  by (simp add: countClauses_def clauseCount_def countClausesLoop_eq)

subsection \<open>The comma\<close>

text \<open>
  Claim C2, as the code has it. An operator token whose value is a comma is handed to
  \<open>formatComma\<close>, which writes it with \<open>addWithSpaceAfter\<close> (a space after it, none before)
  and then calls \<open>addNewline\<close> exactly when no inline block is active, the latest reserved
  token is not \<open>LIMIT\<close> and \<open>currentNewline\<close> is true; it makes no other call and changes
  nothing else.
\<close>

theorem formatComma_calls:
  "(value token = '','' \<longrightarrow> formatOperator env st token = formatComma env st token) \<and>
   formatComma env st token =
     (if \<not> inlineBlockActive st \<and> \<not> isToken_LIMIT env (previousReservedToken st) \<and>
         currentNewline st
      then st\<lparr>calls := calls st @ [AddWithSpaceAfter (show_token env st token), AddNewline]\<rparr>
      else st\<lparr>calls := calls st @ [AddWithSpaceAfter (show_token env st token)]\<rparr>)"
  by (simp add: formatOperator_def formatComma_def call_def getPreviousReservedToken_def Let_def)

text \<open>
  The comma of \<^verbatim>\<open>select a, b from t\<close> in multi-line mode: the comma, then a newline.
\<close>

theorem formatComma_calls_witness:
  "value (select_list ! 2) = '','' \<and>
   calls (formatOperator sampleModule
     (formatterAt sampleOptions select_list 2 True (select_list ! 0) (select_list ! 0))
     (select_list ! 2)) = [AddWithSpaceAfter '','', AddNewline]"
proof -
  have a: "value (select_list ! 2) = '',''"
    by code_simp
  have b: "show_token sampleModule
      (formatterAt sampleOptions select_list 2 True (select_list ! 0) (select_list ! 0))
      (select_list ! 2) = '',''"
    by code_simp
  have c: "\<not> isToken_LIMIT sampleModule (select_list ! 0)"
    by code_simp
  from formatComma_calls [of "select_list ! 2" sampleModule
      "formatterAt sampleOptions select_list 2 True (select_list ! 0) (select_list ! 0)"] a b c
  show ?thesis
    by (simp add: formatterAt_def)
qed

text \<open>
  The claim as written has a newline after every comma that is neither inside an inline
  block nor after \<open>LIMIT\<close>. With \<open>multilineLists\<close> set to \<open>avoid\<close>, \<open>checkNewline\<close> is false
  at the \<open>select\<close> of \<^verbatim>\<open>select a, b from t\<close>, and with \<open>currentNewline\<close> false the comma is
  written without a newline after it.
\<close>

theorem formatComma_no_newline_counterexample:
  "checkNewline sampleModule
     (formatterAt (sampleOptions\<lparr>multilineLists := Avoid\<rparr>) select_list 0 True
        (select_list ! 0) (select_list ! 0))
     (select_list ! 0) = False \<and>
   \<not> inlineBlockActive (formatterAt (sampleOptions\<lparr>multilineLists := Avoid\<rparr>) select_list 2 False
        (select_list ! 0) (select_list ! 0)) \<and>
   \<not> isToken_LIMIT sampleModule (select_list ! 0) \<and>
   calls (formatComma sampleModule
     (formatterAt (sampleOptions\<lparr>multilineLists := Avoid\<rparr>) select_list 2 False
        (select_list ! 0) (select_list ! 0))
     (select_list ! 2)) = [AddWithSpaceAfter '','']"
  by code_simp

subsection \<open>\<open>SELECT\<close> with \<open>CASE\<close>\<close>

text \<open>
  Claim C3 says: when the latest command token is \<open>SELECT\<close> and the tokens up to the next
  command or query end contain a \<open>CASE\<close> token, \<open>checkNewline\<close> is true for every value of
  \<open>multilineLists\<close>. On \<^verbatim>\<open>select case\<close> with \<open>multilineLists\<close> set to \<open>avoid\<close> the code
  does not do so. The statement ends with the \<open>case\<close> and has no \<open>;\<close>, so \<open>findIndex\<close>
  gives \<open>-1\<close>, \<open>slice(0, -1)\<close> drops the last token,
  \<open>tokensUntilNextCommandOrQueryEnd\<close> returns the empty list, and \<open>checkNewline\<close> is
  false.
\<close>

theorem checkNewline_misses_final_case:
  "isToken_SELECT sampleModule (select_case_only ! 0) \<and>
   list_ex (isToken_CASE sampleModule)
     (tailOfCommand sampleModule
        (formatterAt (sampleOptions\<lparr>multilineLists := Avoid\<rparr>) select_case_only 0 True
           (select_case_only ! 0) (select_case_only ! 0))) \<and>
   tokensUntilNextCommandOrQueryEnd sampleModule
     (formatterAt (sampleOptions\<lparr>multilineLists := Avoid\<rparr>) select_case_only 0 True
        (select_case_only ! 0) (select_case_only ! 0)) = [] \<and>
   checkNewline sampleModule
     (formatterAt (sampleOptions\<lparr>multilineLists := Avoid\<rparr>) select_case_only 0 True
        (select_case_only ! 0) (select_case_only ! 0))
     (select_case_only ! 0) = False"
  by code_simp

text \<open>
  What the code does do: with \<open>SELECT\<close> as the latest command token and a \<open>CASE\<close> among the
  tokens that \<open>tokensUntilNextCommandOrQueryEnd\<close> returns, \<open>checkNewline\<close> is true whatever
  the value \<open>m\<close> of \<open>multilineLists\<close>.
\<close>

lemma checkNewline_select_case:
  assumes "isToken_SELECT env (previousCommandToken st)"
    and "list_ex (isToken_CASE env) (tokensUntilNextCommandOrQueryEnd env st)"
  shows "checkNewline env (st\<lparr>cfg := (cfg st)\<lparr>multilineLists := m\<rparr>\<rparr>) token"
proof -
  have "tokensUntilNextCommandOrQueryEnd env (st\<lparr>cfg := (cfg st)\<lparr>multilineLists := m\<rparr>\<rparr>) =
      tokensUntilNextCommandOrQueryEnd env st"
    by (simp add: tokensUntilNextCommandOrQueryEnd_def)
  with assms show ?thesis
    by (simp add: checkNewline_def isWithinSelect_def)
qed

text \<open>So the claim holds of every command that is followed by a later command or \<open>;\<close>.\<close>

lemma checkNewline_select_case_terminated:
  assumes "- 1 \<le> index st"
    and "\<exists>t\<in>set (drop (nat (index st + 1)) (tokens st)). isCommand env t \<or> value t = '';''"
    and "isToken_SELECT env (previousCommandToken st)"
    and "list_ex (isToken_CASE env) (tailOfCommand env st)"
  shows "checkNewline env (st\<lparr>cfg := (cfg st)\<lparr>multilineLists := m\<rparr>\<rparr>) token"
proof -
  have "tokensUntilNextCommandOrQueryEnd env st = tailOfCommand env st"
    using assms(1,2) by (simp add: tokensUntil_tailOfCommand)
  with assms(3,4) show ?thesis
    by (simp add: checkNewline_select_case)
qed

text \<open>
  \<^verbatim>\<open>select case when a then 1 else 2 end from t\<close> with \<open>multilineLists\<close> set to \<open>avoid\<close>.
\<close>

lemma checkNewline_select_case_example:
  "checkNewline sampleModule
     (formatterAt (sampleOptions\<lparr>multilineLists := Avoid\<rparr>) select_case 0 True
        (select_case ! 0) (select_case ! 0))
     (select_case ! 0)"
  by code_simp

subsection \<open>\<open>AND\<close> after \<open>BETWEEN\<close>\<close>

text \<open>
  Claim C6. When the token is \<open>AND\<close> and the token two positions behind it is \<open>BETWEEN\<close>,
  \<open>formatLogicalOperator\<close> makes one call, \<open>addWithSpaces\<close> with the text of the token: no
  \<open>addNewline\<close> before or after it, no change of the indentation, whatever
  \<open>currentNewline\<close>, \<open>logicalOperatorNewline\<close> and \<open>indentStyle\<close> are.
\<close>

theorem and_after_between_no_newline:
  assumes "isToken_AND env token"
    and "isToken_BETWEEN env (tokenLookBehind env st 2)"
  shows "formatLogicalOperator env st token =
     st\<lparr>calls := calls st @ [AddWithSpaces (show_token env st token)]\<rparr>"
  using assms by (simp add: formatLogicalOperator_def call_def)

text \<open>The \<open>and\<close> of \<^verbatim>\<open>where x between 1 and 2\<close>, in multi-line mode.\<close>

theorem and_after_between_no_newline_witness:
  "isToken_AND sampleModule (between_clause ! 4) \<and>
   isToken_BETWEEN sampleModule
     (tokenLookBehind sampleModule
        (formatterAt sampleOptions between_clause 4 True (between_clause ! 2) (between_clause ! 0))
        2) \<and>
   currentNewline
     (formatterAt sampleOptions between_clause 4 True (between_clause ! 2) (between_clause ! 0)) \<and>
   calls (formatLogicalOperator sampleModule
     (formatterAt sampleOptions between_clause 4 True (between_clause ! 2) (between_clause ! 0))
     (between_clause ! 4)) = [AddWithSpaces ''and'']"
proof -
  have a: "isToken_AND sampleModule (between_clause ! 4)"
    by code_simp
  have b: "isToken_BETWEEN sampleModule
     (tokenLookBehind sampleModule
        (formatterAt sampleOptions between_clause 4 True (between_clause ! 2) (between_clause ! 0))
        2)"
    by code_simp
  have c: "show_token sampleModule
      (formatterAt sampleOptions between_clause 4 True (between_clause ! 2) (between_clause ! 0))
      (between_clause ! 4) = ''and''"
    by code_simp
  from and_after_between_no_newline [OF a b] a b c show ?thesis
    by (simp add: formatterAt_def)
qed

subsection \<open>A number as \<open>multilineLists\<close>\<close>

text \<open>
  Claim C7 says: when \<open>multilineLists\<close> is the number \<open>N\<close> and the \<open>SELECT\<close>-with-\<open>CASE\<close>
  override does not apply, \<open>checkNewline\<close> is true exactly when the clause count of the
  tokens up to the next command or query end (the commas at block depth zero, plus one)
  exceeds \<open>N\<close>, or the inline width exceeds \<open>expressionWidth\<close>. On \<^verbatim>\<open>select a,\<close> with
  \<open>multilineLists\<close> 1 and \<open>expressionWidth\<close> 50 the code does not do so. The statement has
  no \<open>;\<close>, so \<open>tokensUntilNextCommandOrQueryEnd\<close> drops its last token, the comma: the
  tokens up to the query end hold two clauses, \<open>countClauses\<close> counts one, and
  \<open>checkNewline\<close> is false.
\<close>

theorem checkNewline_misses_final_comma:
  "multilineLists (cfg (formatterAt (sampleOptions\<lparr>multilineLists := Lines 1\<rparr>)
      select_trailing_comma 0 True (select_trailing_comma ! 0) (select_trailing_comma ! 0))) =
     Lines 1 \<and>
   \<not> list_ex (isToken_CASE sampleModule)
     (tailOfCommand sampleModule
        (formatterAt (sampleOptions\<lparr>multilineLists := Lines 1\<rparr>) select_trailing_comma 0 True
           (select_trailing_comma ! 0) (select_trailing_comma ! 0))) \<and>
   clauseCount
     (tailOfCommand sampleModule
        (formatterAt (sampleOptions\<lparr>multilineLists := Lines 1\<rparr>) select_trailing_comma 0 True
           (select_trailing_comma ! 0) (select_trailing_comma ! 0))) = 2 \<and>
   countClauses
     (tokensUntilNextCommandOrQueryEnd sampleModule
        (formatterAt (sampleOptions\<lparr>multilineLists := Lines 1\<rparr>) select_trailing_comma 0 True
           (select_trailing_comma ! 0) (select_trailing_comma ! 0))) = 1 \<and>
   checkNewline sampleModule
     (formatterAt (sampleOptions\<lparr>multilineLists := Lines 1\<rparr>) select_trailing_comma 0 True
        (select_trailing_comma ! 0) (select_trailing_comma ! 0))
     (select_trailing_comma ! 0) = False"
  by code_simp

text \<open>
  What the code does do: the decision is the one of the claim on the tokens that
  \<open>tokensUntilNextCommandOrQueryEnd\<close> returns, and \<open>countClauses\<close> is the clause count.
\<close>

lemma checkNewline_lines:
  assumes "multilineLists (cfg st) = Lines N"
    and "\<not> (isWithinSelect env st \<and>
           list_ex (isToken_CASE env) (tokensUntilNextCommandOrQueryEnd env st))"
  shows "checkNewline env st token \<longleftrightarrow>
     clauseCount (tokensUntilNextCommandOrQueryEnd env st) > N \<or>
     inlineWidth token (tokensUntilNextCommandOrQueryEnd env st) > expressionWidth (cfg st)"
  using assms by (auto simp: checkNewline_def Let_def countClauses_clauseCount)

text \<open>So the claim holds of every command that is followed by a later command or \<open>;\<close>.\<close>

lemma checkNewline_lines_terminated:
  assumes "- 1 \<le> index st"
    and "\<exists>t\<in>set (drop (nat (index st + 1)) (tokens st)). isCommand env t \<or> value t = '';''"
    and "multilineLists (cfg st) = Lines N"
    and "\<not> (isWithinSelect env st \<and> list_ex (isToken_CASE env) (tailOfCommand env st))"
  shows "checkNewline env st token \<longleftrightarrow>
     clauseCount (tailOfCommand env st) > N \<or>
     inlineWidth token (tailOfCommand env st) > expressionWidth (cfg st)"
proof -
  have "tokensUntilNextCommandOrQueryEnd env st = tailOfCommand env st"
    using assms(1,2) by (simp add: tokensUntil_tailOfCommand)
  with assms(3,4) show ?thesis
    by (simp add: checkNewline_lines)
qed

text \<open>
  \<^verbatim>\<open>select a, f(b, c), d from t\<close> with \<open>multilineLists\<close> 2 and \<open>expressionWidth\<close> 50: three
  clauses (the comma inside the parentheses does not count), width 20; multi-line.
\<close>

lemma checkNewline_lines_example:
  "clauseCount (tokensUntilNextCommandOrQueryEnd sampleModule
      (formatterAt (sampleOptions\<lparr>multilineLists := Lines 2\<rparr>) select_call 0 True
         (select_call ! 0) (select_call ! 0))) = 3 \<and>
   inlineWidth (select_call ! 0) (tokensUntilNextCommandOrQueryEnd sampleModule
      (formatterAt (sampleOptions\<lparr>multilineLists := Lines 2\<rparr>) select_call 0 True
         (select_call ! 0) (select_call ! 0))) = 20 \<and>
   checkNewline sampleModule
     (formatterAt (sampleOptions\<lparr>multilineLists := Lines 2\<rparr>) select_call 0 True
        (select_call ! 0) (select_call ! 0))
     (select_call ! 0)"
  by code_simp

text \<open>
  The dropped token is also missing from the inline width of the last command of a
  statement without \<open>;\<close>: on \<^verbatim>\<open>select a, b\<close> the width of \<^verbatim>\<open>select a, b\<close> is 11, the
  code measures 10, and with \<open>expressionWidth\<close> 10 and \<open>multilineLists\<close> 5 \<open>checkNewline\<close>
  is false.
\<close>

lemma inlineWidth_misses_final_token:
  "inlineWidth (select_pair ! 0)
     (tailOfCommand sampleModule
        (formatterAt (sampleOptions\<lparr>multilineLists := Lines 5, expressionWidth := 10\<rparr>)
           select_pair 0 True (select_pair ! 0) (select_pair ! 0))) = 11 \<and>
   inlineWidth (select_pair ! 0)
     (tokensUntilNextCommandOrQueryEnd sampleModule
        (formatterAt (sampleOptions\<lparr>multilineLists := Lines 5, expressionWidth := 10\<rparr>)
           select_pair 0 True (select_pair ! 0) (select_pair ! 0))) = 10 \<and>
   checkNewline sampleModule
     (formatterAt (sampleOptions\<lparr>multilineLists := Lines 5, expressionWidth := 10\<rparr>)
        select_pair 0 True (select_pair ! 0) (select_pair ! 0))
     (select_pair ! 0) = False"
  by code_simp

subsection \<open>The inline width and the blanks of the input\<close>

text \<open>
  \<open>inlineWidth\<close> counts the blanks that stood in front of the command in the input. With
  \<open>multilineLists\<close> set to \<open>expressionWidth\<close> and \<open>expressionWidth\<close> 10, the \<open>from\<close> of
  \<^verbatim>\<open>select a from t, u;\<close> is multi-line after six blanks (width 15) and inline after a
  single line break (width 10): the decision depends on the layout of the input, not only
  on its tokens.
\<close>

lemma checkNewline_depends_on_input_blanks:
  "checkNewline sampleModule
     (formatterAt (sampleOptions\<lparr>multilineLists := ExpressionWidth, expressionWidth := 10\<rparr>)
        (select_from ''      '') 2 True (select_from ''      '' ! 2) (select_from ''      '' ! 2))
     (select_from ''      '' ! 2) = True \<and>
   checkNewline sampleModule
     (formatterAt (sampleOptions\<lparr>multilineLists := ExpressionWidth, expressionWidth := 10\<rparr>)
        (select_from [CHR 0x0A]) 2 True (select_from [CHR 0x0A] ! 2) (select_from [CHR 0x0A] ! 2))
     (select_from [CHR 0x0A] ! 2) = False"
  by code_simp

subsection \<open>Looking behind and ahead\<close>

text \<open>
  Claim C10. \<open>tokenLookBehind(n)\<close> and \<open>tokenLookAhead(n)\<close> return the token at \<open>index - n\<close>
  and \<open>index + n\<close> when that position is inside the token list and \<open>EOF_TOKEN\<close> when it is
  outside, on either side; so looking two behind from the first two positions of a
  statement gives \<open>EOF_TOKEN\<close>.
\<close>

theorem tokenLook_total:
  "(index st - n < 0 \<or> int (length (tokens st)) \<le> index st - n \<longrightarrow>
      tokenLookBehind env st n = EOF_TOKEN env) \<and>
   (0 \<le> index st - n \<and> index st - n < int (length (tokens st)) \<longrightarrow>
      tokenLookBehind env st n = tokens st ! nat (index st - n)) \<and>
   (index st + n < 0 \<or> int (length (tokens st)) \<le> index st + n \<longrightarrow>
      tokenLookAhead env st n = EOF_TOKEN env) \<and>
   (0 \<le> index st + n \<and> index st + n < int (length (tokens st)) \<longrightarrow>
      tokenLookAhead env st n = tokens st ! nat (index st + n)) \<and>
   (index st < 2 \<longrightarrow> tokenLookBehind env st 2 = EOF_TOKEN env)"
  by (auto simp: tokenLookBehind_def tokenLookAhead_def js_index_def)

text \<open>
  At the first token of \<^verbatim>\<open>where x between 1 and 2\<close>: two behind is \<open>EOF_TOKEN\<close>, two ahead
  is \<open>between\<close>; at its last token two ahead is \<open>EOF_TOKEN\<close> and two behind is \<open>1\<close>.
\<close>

theorem tokenLook_total_witness:
  "tokenLookBehind sampleModule
     (formatterAt sampleOptions between_clause 0 True (between_clause ! 0) (between_clause ! 0)) 2 =
     EOF_TOKEN sampleModule \<and>
   tokenLookAhead sampleModule
     (formatterAt sampleOptions between_clause 0 True (between_clause ! 0) (between_clause ! 0)) 2 =
     between_clause ! 2 \<and>
   tokenLookAhead sampleModule
     (formatterAt sampleOptions between_clause 5 True (between_clause ! 4) (between_clause ! 0)) 2 =
     EOF_TOKEN sampleModule \<and>
   tokenLookBehind sampleModule
     (formatterAt sampleOptions between_clause 5 True (between_clause ! 4) (between_clause ! 0)) 2 =
     between_clause ! 3"
proof -
  have l: "length between_clause = 6"
    by (simp add: between_clause_def)
  from tokenLook_total [of
      "formatterAt sampleOptions between_clause 0 True (between_clause ! 0) (between_clause ! 0)"
      2 sampleModule] l
  have a: "tokenLookBehind sampleModule
     (formatterAt sampleOptions between_clause 0 True (between_clause ! 0) (between_clause ! 0)) 2 =
     EOF_TOKEN sampleModule \<and>
   tokenLookAhead sampleModule
     (formatterAt sampleOptions between_clause 0 True (between_clause ! 0) (between_clause ! 0)) 2 =
     between_clause ! 2"
    by (simp add: formatterAt_def)
  from tokenLook_total [of
      "formatterAt sampleOptions between_clause 5 True (between_clause ! 4) (between_clause ! 0)"
      2 sampleModule] l
  have b: "tokenLookAhead sampleModule
     (formatterAt sampleOptions between_clause 5 True (between_clause ! 4) (between_clause ! 0)) 2 =
     EOF_TOKEN sampleModule \<and>
   tokenLookBehind sampleModule
     (formatterAt sampleOptions between_clause 5 True (between_clause ! 4) (between_clause ! 0)) 2 =
     between_clause ! 3"
    by (simp add: formatterAt_def)
  from a b show ?thesis by blast
qed

section \<open>Properties of \<open>format\<close>\<close>

lemma set_supportedDialects:
  "set supportedDialects =
     {''sql'', ''bigquery'', ''db2'', ''hive'', ''mariadb'', ''mysql'', ''n1ql'', ''plsql'',
      ''postgresql'', ''redshift'', ''singlestoredb'', ''snowflake'', ''spark'', ''sqlite'',
      ''transactsql'', ''tsql'', ''trino''}"
  unfolding supportedDialects_def formatters_def by (simp add: insert_commute)

text \<open>
  Claim C8. For a query that is a string and options whose \<open>language\<close> is a string \<open>l\<close>:
  when \<open>l\<close> is outside the seventeen dialect names, \<open>format\<close> throws the \<open>ConfigError\<close>
  for an unsupported dialect, before the options are validated; when \<open>l\<close> is one of them,
  the check passes, and the result is that of validating the options and running the
  formatter.
\<close>

theorem unsupported_dialect_ConfigError:
  "(opts ''language'' = Some (Str l) \<and>
    l \<notin> {''sql'', ''bigquery'', ''db2'', ''hive'', ''mariadb'', ''mysql'', ''n1ql'', ''plsql'',
         ''postgresql'', ''redshift'', ''singlestoredb'', ''snowflake'', ''spark'', ''sqlite'',
         ''transactsql'', ''tsql'', ''trino''} \<longrightarrow>
    format validateConfig runFormatter (QueryString q) (Some opts) =
      Inl (ConfigError (''Unsupported SQL dialect: '' @ l))) \<and>
   (opts ''language'' = Some (Str l) \<and>
    l \<in> {''sql'', ''bigquery'', ''db2'', ''hive'', ''mariadb'', ''mysql'', ''n1ql'', ''plsql'',
         ''postgresql'', ''redshift'', ''singlestoredb'', ''snowflake'', ''spark'', ''sqlite'',
         ''transactsql'', ''tsql'', ''trino''} \<longrightarrow>
    format validateConfig runFormatter (QueryString q) (Some opts) =
      (case validateConfig (defaultOptions ++ opts) of
         Inl e \<Rightarrow> Inl e
       | Inr options \<Rightarrow>
          (case (case options ''language'' of
                   Some (Str l') \<Rightarrow> map_of formatters l'
                 | Some (Cls c) \<Rightarrow> Some c
                 | _ \<Rightarrow> None) of
             None \<Rightarrow> Inl TypeError
           | Some FormatterCls \<Rightarrow> runFormatter FormatterCls options q)))"
  unfolding set_supportedDialects [symmetric]
  by (simp add: format_def validateQuery_def Let_def)

text \<open>
  \<open>oracle\<close> is not a dialect name: the error. \<open>tsql\<close> is one: with a validation that
  accepts the options and a formatter that returns a fixed string, \<open>format\<close> returns it.
\<close>

theorem unsupported_dialect_ConfigError_witness:
  "format Inr (\<lambda>F options q. Inr ''SELECT'') (QueryString ''select'')
     (Some [''language'' \<mapsto> Str ''oracle'']) =
     Inl (ConfigError ''Unsupported SQL dialect: oracle'') \<and>
   format Inr (\<lambda>F options q. Inr ''SELECT'') (QueryString ''select'')
     (Some [''language'' \<mapsto> Str ''tsql'']) = Inr ''SELECT''"
proof -
  from unsupported_dialect_ConfigError [of "[''language'' \<mapsto> Str ''oracle'']" "''oracle''"
      Inr "\<lambda>F options q. Inr ''SELECT''" "''select''"]
  have a: "format Inr (\<lambda>F options q. Inr ''SELECT'') (QueryString ''select'')
     (Some [''language'' \<mapsto> Str ''oracle'']) =
     Inl (ConfigError ''Unsupported SQL dialect: oracle'')"
    by simp
  from unsupported_dialect_ConfigError [of "[''language'' \<mapsto> Str ''tsql'']" "''tsql''"
      Inr "\<lambda>F options q. Inr ''SELECT''" "''select''"]
  have b: "format Inr (\<lambda>F options q. Inr ''SELECT'') (QueryString ''select'')
     (Some [''language'' \<mapsto> Str ''tsql'']) = Inr ''SELECT''"
    by (simp add: formatters_def)
  from a b show ?thesis by blast
qed

end
